theory Spec2Isabelle
  imports Main "HOL-Library.Sublist" "HOL-Library.Char_ord" "HOL-Library.List_Lexorder"
begin

section \<open>JavaScript strings\<close>

text \<open>
  A JavaScript string is modelled as a \<open>string\<close> (a list of 8-bit characters): ASCII
  text as it is, anything else as its UTF-8 bytes. An optional value (\<open>undefined\<close> or
  \<open>null\<close> in the source) is an \<open>option\<close>.
\<close>

definition ascii_upper :: string where
  "ascii_upper = ''ABCDEFGHIJKLMNOPQRSTUVWXYZ''"

definition ascii_lower :: string where
  "ascii_lower = ''abcdefghijklmnopqrstuvwxyz''"

text \<open>\<open>String.prototype.toLowerCase\<close>, on the ASCII letters.\<close>

definition lower_char :: "char \<Rightarrow> char" where
  "lower_char c = (case map_of (zip ascii_upper ascii_lower) c of Some l \<Rightarrow> l | None \<Rightarrow> c)"

definition toLowerCase :: "string \<Rightarrow> string" where
  "toLowerCase s = map lower_char s"

text \<open>
  \<open>String.prototype.trim\<close>: the ASCII white space (tab, line feed, vertical tab, form
  feed, carriage return, space) is removed from both ends.
\<close>

definition is_space :: "char \<Rightarrow> bool" where
  "is_space c = (c \<in> set [CHR 0x09, CHR 0x0A, CHR 0x0B, CHR 0x0C, CHR 0x0D, CHR '' ''])"

definition trim :: "string \<Rightarrow> string" where
  "trim s = rev (dropWhile is_space (rev (dropWhile is_space s)))"

text \<open>
  \<open>String.prototype.split('/')\<close>: the pieces between the slashes; a string without a
  slash (the empty one too) is one piece.
\<close>

fun split_slash :: "string \<Rightarrow> string list" where
  "split_slash [] = [[]]"
| "split_slash (c # cs) =
     (if c = CHR ''/'' then [] # split_slash cs
      else (case split_slash cs of [] \<Rightarrow> [[c]] | s # ss \<Rightarrow> (c # s) # ss))"

text \<open>\<open>Array.prototype.join('/')\<close>.\<close>

fun join_slash :: "string list \<Rightarrow> string" where
  "join_slash [] = []"
| "join_slash [s] = s"
| "join_slash (s # t # ts) = s @ CHR ''/'' # join_slash (t # ts)"

section \<open>Helpers of the repository that are not among the sources\<close>

text \<open>
  \<open>helpers.ts\<close> and \<open>host/helpers.ts\<close> are imported by the two source files but are
  not part of them. Their string functions are modelled below from what the
  specification says about them; the others are fields of the records \<open>host\<close> and
  \<open>workspace\<close> further down, so that the theorems hold for every implementation.
\<close>

text \<open>
  Modelled from the spec: \<open>toStringSafe\<close> (helpers.ts, not among the sources) turns any
  value into a string, \<open>undefined\<close> and \<open>null\<close> into the empty one.
\<close>

definition toStringSafe :: "string option \<Rightarrow> string" where
  "toStringSafe v = (case v of None \<Rightarrow> [] | Some s \<Rightarrow> s)"

text \<open>
  Modelled from the spec: \<open>normalizeString\<close> (helpers.ts, not among the sources) yields
  the comparison key of a string; the specification calls its result "lower-cased" (the
  HTTP method name of the request context) and "case-normalized". It lower-cases and
  trims.
\<close>

definition normalizeString :: "string \<Rightarrow> string" where
  "normalizeString s = trim (toLowerCase s)"

text \<open>
  Modelled from the spec: \<open>isEmptyString\<close> (helpers.ts, not among the sources) holds of
  a segment that is empty or blank ("non-empty, cleaned segments").
\<close>

definition isEmptyString :: "string \<Rightarrow> bool" where
  "isEmptyString s = (trim s = [])"

text \<open>
  \<open>Path.sep\<close> of a POSIX host. (On Windows it is the backslash, and the second
  replacement the sources make is the first one again.)
\<close>

definition Path_sep :: char where
  "Path_sep = CHR ''/''"

text \<open>
  Modelled from the spec: \<open>replaceAllStrings\<close> (helpers.ts, not among the sources)
  replaces every occurrence of the search string ("separator canonicalization"); the
  sources call it with search strings of one character only.
\<close>

definition replaceAllStrings :: "string \<Rightarrow> char \<Rightarrow> char \<Rightarrow> string" where
  "replaceAllStrings s searchChar replaceChar = map (\<lambda>c. if c = searchChar then replaceChar else c) s"

text \<open>
  Modelled from the spec: \<open>toBooleanSafe\<close> (helpers.ts, not among the sources) reads a
  flag, with a default for a missing one.
\<close>

definition toBooleanSafe :: "bool option \<Rightarrow> bool \<Rightarrow> bool" where
  "toBooleanSafe v d = (case v of None \<Rightarrow> d | Some b \<Rightarrow> b)"

text \<open>
  Modelled from the spec: \<open>compareValues\<close> (helpers.ts, not among the sources) is the
  comparison function handed to \<open>Array.prototype.sort\<close>: negative, zero or positive as
  the first string is less than, equal to or greater than the second.
\<close>

definition compareValues :: "string \<Rightarrow> string \<Rightarrow> int" where
  "compareValues x y = (if x = y then 0 else if x > y then 1 else if x < y then - 1 else 0)"

section \<open>The data model of host.ts\<close>

text \<open>A value that is thrown, or that rejects a promise.\<close>

datatype err = Err string

text \<open>
  The user object of \<open>host/users.ts\<close>, as far as the sources read it: the guest flag,
  the account's name and the visibility check, a promise that resolves to a flag or is
  rejected.
\<close>

record user =
  isGuest :: bool
  account_name :: "string option"
  isFileVisible :: "string \<Rightarrow> err + bool"

record configuration =
  withDot :: "bool option"

text \<open>
  \<open>RequestContext\<close>. Of the wire request the sources read the path name of the parsed
  URL and the remote address of the connection; the wire response is the outcome of the
  dispatcher below. The field \<open>method\<close> is \<open>methodName\<close> here.
\<close>

record RequestContext =
  config :: configuration
  GET :: "(string \<times> string) list"
  methodName :: string
  remoteAddress :: "string option"
  time :: nat
  pathname :: "string option"
  user :: "user option"

text \<open>The entries and the payload of a directory listing, and the data of the root resource.\<close>

record list_entry =
  creationTime :: string
  lastChangeTime :: string
  lastModifiedTime :: string
  entry_mime :: "string option"
  entry_name :: string
  entry_path :: string
  entry_type :: string

record listing =
  dirs :: "list_entry list"
  files :: "list_entry list"
  parent :: "string option"

record root_data =
  addr :: "string option"
  time_text :: string
  me :: "string option"

datatype json_data = Root root_data | Listing listing

record ApiResponse =
  code :: int
  data :: "json_data option"
  msg :: "string option"

type_synonym header_map = "string \<rightharpoonup> string"

text \<open>
  \<open>ApiContext\<close>: the fields of the interface. \<open>delete this.response\<close> and
  \<open>delete this.headers\<close> make a field \<open>None\<close>. The functions of the interface follow
  as definitions that take the context and return it changed.
\<close>

record ApiContext =
  content :: "string option"
  encoding :: string
  headers :: "header_map option"
  request :: RequestContext
  response :: "ApiResponse option"
  statusCode :: "int option"

definition DEFAULT_ENCODING :: string where
  "DEFAULT_ENCODING = ''utf8''"

text \<open>The object literal \<open>apiCtx\<close> of \<open>handleApi\<close>.\<close>

definition new_apiCtx :: "RequestContext \<Rightarrow> ApiResponse \<Rightarrow> ApiContext" where
  "new_apiCtx ctx resp =
     \<lparr> content = None,
       encoding = DEFAULT_ENCODING,
       headers = Some [''Content-type'' \<mapsto> ''application/json; charset=utf-8''],
       request = ctx,
       response = Some resp,
       statusCode = Some 200 \<rparr>"

definition setContent :: "string option \<Rightarrow> string option \<Rightarrow> ApiContext \<Rightarrow> ApiContext" where
  "setContent newContent mime this =
     (let this1 = this\<lparr> response := None, content := newContent \<rparr>;
          mime' = normalizeString (toStringSafe mime)
      in if mime' \<noteq> []
         then this1\<lparr> headers := Some ((case headers this1 of None \<Rightarrow> Map.empty | Some h \<Rightarrow> h)
                                        (''Content-type'' \<mapsto> mime')) \<rparr>
         else this1)"

definition sendMethodNotAllowed :: "ApiContext \<Rightarrow> ApiContext" where
  "sendMethodNotAllowed this = this\<lparr> statusCode := Some 405, response := None, headers := None \<rparr>"

definition sendNotFound :: "ApiContext \<Rightarrow> ApiContext" where
  "sendNotFound this = this\<lparr> statusCode := Some 404, response := None, headers := None \<rparr>"

text \<open>The \<open>TypeError\<close> of an access to a field of \<open>undefined\<close>.\<close>

definition TypeError :: err where
  "TypeError = Err ''TypeError''"

section \<open>The response pipeline and the dispatcher of host.ts\<close>

text \<open>
  The payload of a response: the JSON text of the response object
  (\<open>JSON.stringify(response)\<close>, kept as the object it serialises) or the raw content.
  What is written to the socket is the payload as it is, or the bytes the compressor
  made of it.
\<close>

datatype payload = Structured ApiResponse | RawContent "string option"

datatype body = Plain payload | Bytes string

record compress_result =
  contentEncoding :: "string option"
  dataToSend :: body

text \<open>\<open>writeHead(statusCode, headers)\<close>, \<open>write(data)\<close>, \<open>end()\<close>.\<close>

record HttpResponse =
  status :: int
  sent_headers :: "header_map option"
  sent_body :: body

text \<open>
  What a request does that the claims speak of: a module is loaded, the file system, the
  visibility check or the editor is called.
\<close>

datatype event =
    Require string
  | FsExists string
  | FsLstat string
  | FsReaddir string
  | FsReadFile string
  | IsFileVisible string
  | OpenTextDocument string

text \<open>
  How a call of a handler ends: it returns \<open>undefined\<close> with the context changed, it
  returns a promise that is resolved or rejected, it throws, or an exception escapes one of
  its callbacks, so that its promise is never settled.
\<close>

datatype completion =
    Returned ApiContext
  | Resolved ApiContext
  | Rejected err
  | Threw err
  | Uncaught err

type_synonym ApiMethod = "ApiContext \<Rightarrow> event list \<times> completion"

text \<open>
  A loaded module is its exports object, the properties in the order of \<open>for (p in mod)\<close>;
  a property is a function or something else. (The exports object of a module is an
  object, so the test \<open>if (mod)\<close> of the source is the test that loading succeeded.)
\<close>

datatype export = Fn ApiMethod | NotFn

type_synonym module = "(string \<times> export) list"

text \<open>
  The collaborators of \<open>host.ts\<close>: the configuration, the clock and the formatting of
  \<open>moment\<close>, the helpers \<open>urlParamsToObject\<close>, \<open>getUser\<close> (which may throw),
  \<open>cleanupString\<close> and \<open>compressForResponse\<close> (a promise), and \<open>require\<close>, which is
  \<open>None\<close> for a module that fails to load.
\<close>

record host =
  cfg :: configuration
  now :: nat
  format_time :: "nat \<Rightarrow> string"
  urlParamsToObject :: "string option \<Rightarrow> (string \<times> string) list"
  getUser :: "RequestContext \<Rightarrow> err + user option"
  cleanupString :: "string \<Rightarrow> string"
  require :: "string \<Rightarrow> module option"
  compressForResponse :: "payload \<Rightarrow> RequestContext \<Rightarrow> string \<Rightarrow> err + compress_result"

text \<open>
  How a request ends. The three senders of \<open>host/helpers.ts\<close> are not among the
  sources: a call of one is an outcome of its own. \<open>ServerError\<close> is the last resort of
  the listener (\<open>resp.statusCode = 500; resp.end()\<close>); \<open>NoResponse\<close> is a request whose
  handler never settles.
\<close>

datatype outcome =
    HelperSendUnauthorized
  | HelperSendNotFound
  | HelperSendError err
  | Written HttpResponse
  | ServerError
  | NoResponse

text \<open>
  Modelled from the spec: the senders of \<open>host/helpers.ts\<close> (not among the sources)
  answer \<open>401 Unauthorized\<close>, \<open>404 Not Found\<close> and a generic error response of status
  500.
\<close>

definition status_of :: "outcome \<Rightarrow> int option" where
  "status_of out =
     (case out of
        HelperSendUnauthorized \<Rightarrow> Some 401
      | HelperSendNotFound \<Rightarrow> Some 404
      | HelperSendError e \<Rightarrow> Some 500
      | Written r \<Rightarrow> Some (status r)
      | ServerError \<Rightarrow> Some 500
      | NoResponse \<Rightarrow> None)"

text \<open>
  \<open>parseInt(normalizeString(statusCode))\<close> for a status code that is an integral number.
  A number below \<open>10\<^sup>2\<^sup>1\<close> in size is written in decimal digits and read back as
  itself. A larger one is written with an exponent, in the fewest digits that still name
  the number (\<open>1e+23\<close> for the number \<open>99999999999999991611392\<close>, the one nearest to
  \<open>10\<^sup>2\<^sup>3\<close>), and \<open>parseInt\<close> reads the digits before the point or the \<open>e\<close>: the
  first digit of that text, with its sign. That digit is the first digit of the number,
  unless the number is the one nearest to the next multiple of a power of ten with one
  digit, whose digit it is then.
\<close>

fun leading_digit :: "nat \<Rightarrow> nat" where
  "leading_digit n = (if n < 10 then n else leading_digit (n div 10))"

fun decimal_length :: "nat \<Rightarrow> nat" where
  "decimal_length n = (if n < 10 then 1 else Suc (decimal_length (n div 10)))"

fun bit_length :: "nat \<Rightarrow> nat" where
  "bit_length n = (if n = 0 then 0 else Suc (bit_length (n div 2)))"

declare leading_digit.simps [simp del] decimal_length.simps [simp del] bit_length.simps [simp del]

text \<open>
  The number (a double: 53 bits, ties to the even one) that is nearest to a natural
  number.
\<close>

definition to_double :: "nat \<Rightarrow> nat" where
  "to_double v =
     (let e = bit_length v - 53; q = v div 2 ^ e; r = v mod 2 ^ e
      in if e = 0 then v
         else if 2 ^ (e - 1) < r \<or> (r = 2 ^ (e - 1) \<and> odd q) then (q + 1) * 2 ^ e
         else q * 2 ^ e)"

definition exponent_digit :: "nat \<Rightarrow> nat" where
  "exponent_digit v =
     (let d = leading_digit v; up = (d + 1) * 10 ^ (decimal_length v - 1)
      in if to_double up = v then leading_digit (d + 1) else d)"

definition parseInt_number :: "int \<Rightarrow> int" where
  "parseInt_number n =
     (if \<bar>n\<bar> < 10 ^ 21 then n else sgn n * int (exponent_digit (nat \<bar>n\<bar>)))"

text \<open>
  \<open>sendResponseData\<close>: a status code that is missing counts as 200 (\<open>isEmptyString\<close>
  holds of \<open>undefined\<close> and of no number); one that is there is read back from its text.
\<close>

definition sendResponseData :: "ApiContext \<Rightarrow> body \<Rightarrow> HttpResponse" where
  "sendResponseData apiCtx finalDataToSend =
     \<lparr> status = (case statusCode apiCtx of None \<Rightarrow> 200 | Some n \<Rightarrow> parseInt_number n),
       sent_headers = headers apiCtx,
       sent_body = finalDataToSend \<rparr>"

text \<open>
  The payload \<open>responseData\<close> of \<open>sendResponse\<close>. \<open>JSON.stringify(response)\<close> reads the
  response object that \<open>handleApi\<close> was given, which is the object the field of the
  context holds for as long as a handler only assigns to its fields.
\<close>

definition responseData :: "ApiContext \<Rightarrow> payload" where
  "responseData apiCtx =
     (case response apiCtx of Some r \<Rightarrow> Structured r | None \<Rightarrow> RawContent (content apiCtx))"

text \<open>The encoding \<open>enc\<close> that \<open>sendResponse\<close> hands to the compressor.\<close>

definition response_encoding :: "ApiContext \<Rightarrow> string" where
  "response_encoding apiCtx =
     (let enc = normalizeString (encoding apiCtx) in if enc = [] then DEFAULT_ENCODING else enc)"

definition sendResponse :: "host \<Rightarrow> RequestContext \<Rightarrow> ApiContext \<Rightarrow> err option \<Rightarrow> outcome" where
  "sendResponse h ctx apiCtx err =
     (case err of
        Some e \<Rightarrow> HelperSendError e
      | None \<Rightarrow>
          (case compressForResponse h (responseData apiCtx) ctx (response_encoding apiCtx) of
             Inr compressResult \<Rightarrow>
               (case contentEncoding compressResult of
                  None \<Rightarrow> Written (sendResponseData apiCtx (dataToSend compressResult))
                | Some ce \<Rightarrow>
                    if ce = [] then Written (sendResponseData apiCtx (dataToSend compressResult))
                    else Written (sendResponseData
                           (apiCtx\<lparr> headers :=
                              Some ((case headers apiCtx of None \<Rightarrow> Map.empty | Some hs \<Rightarrow> hs)
                                    (''Content-encoding'' \<mapsto> ce)) \<rparr>)
                           (dataToSend compressResult)))
           | Inl e \<Rightarrow> Written (sendResponseData apiCtx (Plain (responseData apiCtx)))))"

text \<open>
  \<open>REGEX_API\<close> is \<open>/^(\/)(api)(\/)?/i\<close>: a string passes the test when its first four
  characters are \<open>/api\<close> in any case.
\<close>

definition REGEX_API_test :: "string \<Rightarrow> bool" where
  "REGEX_API_test s = (toLowerCase (take 4 s) = ''/api'')"

text \<open>The segments \<open>parts\<close> of \<open>handleApi\<close>.\<close>

definition api_parts :: "string option \<Rightarrow> string list" where
  "api_parts pn =
     (let normalizedPath = toStringSafe pn;
          normalizedPath = replaceAllStrings normalizedPath (CHR 0x5C) (CHR ''/'');
          normalizedPath = replaceAllStrings normalizedPath Path_sep (CHR ''/'');
          normalizedPath = normalizeString normalizedPath
      in filter (\<lambda>x. \<not> isEmptyString x) (map normalizeString (split_slash (drop 4 normalizedPath))))"

text \<open>
  The loop over the properties of the module: the first property whose name is the
  method name ends the search, and is the handler when it is a function.
\<close>

fun find_method :: "module \<Rightarrow> string \<Rightarrow> ApiMethod option" where
  "find_method [] m = None"
| "find_method ((p, v) # rest) m =
     (if p = m then (case v of Fn f \<Rightarrow> Some f | NotFn \<Rightarrow> None) else find_method rest m)"

text \<open>The handler of the root resource.\<close>

definition root_method :: "host \<Rightarrow> RequestContext \<Rightarrow> ApiMethod" where
  "root_method h ctx ac =
     (case response ac of
        None \<Rightarrow> ([], Threw TypeError)
      | Some r \<Rightarrow>
          (case user ctx of
             None \<Rightarrow> ([], Threw TypeError)
           | Some u \<Rightarrow>
               ([], Returned (ac\<lparr> response := Some (r\<lparr> data := Some (Root
                   \<lparr> addr = remoteAddress ctx,
                     time_text = format_time h (time ctx),
                     me = (if \<not> isGuest u
                           then Some (normalizeString (toStringSafe (account_name u)))
                           else None) \<rparr>) \<rparr>) \<rparr>))))"

text \<open>The handler of a module that has no function for the method.\<close>

definition method_not_allowed :: ApiMethod where
  "method_not_allowed ac = ([], Returned (sendMethodNotAllowed ac))"

text \<open>
  The first half of \<open>handleApi\<close>: the modules it tries to load and the handler it
  chooses, which is none when the module failed to load.
\<close>

definition select_method :: "host \<Rightarrow> RequestContext \<Rightarrow> event list \<times> ApiMethod option" where
  "select_method h ctx =
     (case api_parts (pathname ctx) of
        [] \<Rightarrow> ([], Some (root_method h ctx))
      | p # ps \<Rightarrow>
          (let modName = cleanupString h p
           in if isEmptyString modName then ([], Some (root_method h ctx))
              else ([Require modName],
                    (case require h modName of
                       None \<Rightarrow> None
                     | Some m \<Rightarrow>
                         (case find_method m (methodName ctx) of
                            Some f \<Rightarrow> Some f
                          | None \<Rightarrow> Some method_not_allowed)))))"

definition handleApi :: "host \<Rightarrow> RequestContext \<Rightarrow> ApiResponse \<Rightarrow> event list \<times> outcome" where
  "handleApi h ctx resp =
     (case select_method h ctx of
        (evs, None) \<Rightarrow> (evs, HelperSendNotFound)
      | (evs, Some f) \<Rightarrow>
          (case f (new_apiCtx ctx resp) of
             (evs', Returned ac) \<Rightarrow> (evs @ evs', sendResponse h ctx ac None)
           | (evs', Resolved ac) \<Rightarrow> (evs @ evs', sendResponse h ctx ac None)
           | (evs', Rejected e) \<Rightarrow> (evs @ evs', HelperSendError e)
           | (evs', Threw e) \<Rightarrow> (evs @ evs', HelperSendError e)
           | (evs', Uncaught e) \<Rightarrow> (evs @ evs', NoResponse)))"

definition handleRequest :: "host \<Rightarrow> RequestContext \<Rightarrow> event list \<times> outcome" where
  "handleRequest h ctx =
     (let normalizedPath = normalizeString (toStringSafe (pathname ctx))
      in if REGEX_API_test normalizedPath
         then handleApi h ctx \<lparr> code = 0, data = None, msg = None \<rparr>
         else ([], HelperSendNotFound))"

text \<open>The wire request, as far as the listener reads it.\<close>

record IncomingMessage =
  req_method :: "string option"
  req_pathname :: "string option"
  req_query :: "string option"
  req_remoteAddress :: "string option"

text \<open>The request context the listener builds, before the user is resolved.\<close>

definition listener_context :: "host \<Rightarrow> IncomingMessage \<Rightarrow> RequestContext" where
  "listener_context h req =
     (let ctx = \<lparr> config = cfg h,
                  GET = urlParamsToObject h (req_query req),
                  methodName = normalizeString (toStringSafe (req_method req)),
                  remoteAddress = req_remoteAddress req,
                  time = now h,
                  pathname = req_pathname req,
                  user = None \<rparr>
      in if methodName ctx = [] then ctx\<lparr> methodName := ''get'' \<rparr> else ctx)"

definition requestListener :: "host \<Rightarrow> IncomingMessage \<Rightarrow> event list \<times> outcome" where
  "requestListener h req =
     (let ctx = listener_context h req
      in case getUser h ctx of
           Inl e \<Rightarrow> ([], ServerError)
         | Inr None \<Rightarrow> ([], HelperSendUnauthorized)
         | Inr (Some u) \<Rightarrow> handleRequest h (ctx\<lparr> user := Some u \<rparr>))"

section \<open>The file system handler of api/workspace.ts\<close>

definition HEADER_FILE_TYPE :: string where
  "HEADER_FILE_TYPE = ''X-vscode-restapi-type''"

datatype file_kind = Directory | RegularFile | Other

text \<open>\<open>FS.Stats\<close>: \<open>isDirectory()\<close>, \<open>isFile()\<close>, the three dates and the size.\<close>

record Stats =
  stat_kind :: file_kind
  stat_birthtime :: nat
  stat_ctime :: nat
  stat_mtime :: nat
  stat_size :: nat

record FileSystemItem =
  item_birthtime :: nat
  item_ctime :: nat
  item_fullPath :: string
  item_mtime :: nat
  item_name :: string

record FileItem = FileSystemItem +
  item_mime :: string
  item_size :: nat

text \<open>How the editor answers \<open>openTextDocument\<close> followed by \<open>showTextDocument\<close>.\<close>

datatype editor_result = Shown | ShowFailed err | OpenFailed err | OpenThrew err

text \<open>
  The collaborators of \<open>api/workspace.ts\<close>: the workspace root of the editor, the
  functions of \<open>path\<close> (\<open>path_parent dir\<close> is \<open>Path.resolve(dir, '..')\<close>), the URI
  coding (\<open>decodeURIComponent\<close> is \<open>None\<close> where it throws a \<open>URIError\<close>), the helpers
  \<open>toRelativePath\<close> (\<open>None\<close> is its \<open>false\<close>) and \<open>detectMimeByFilename\<close>, the
  formatting of \<open>moment\<close>, the file system and the editor.
\<close>

record workspace =
  rootPath :: "string option"
  path_join :: "string \<Rightarrow> string \<Rightarrow> string"
  path_resolve :: "string \<Rightarrow> string"
  path_parent :: "string \<Rightarrow> string"
  path_basename :: "string \<Rightarrow> string"
  decodeURIComponent :: "string \<Rightarrow> string option"
  encodeURIComponent :: "string \<Rightarrow> string"
  toRelativePath :: "string \<Rightarrow> string option"
  detectMimeByFilename :: "string \<Rightarrow> string"
  format_date :: "nat \<Rightarrow> string"
  fs_exists :: "string \<Rightarrow> bool"
  fs_lstat :: "string \<Rightarrow> err + Stats"
  fs_readdir :: "string \<Rightarrow> err + string list"
  fs_readFile :: "string \<Rightarrow> err + string"
  openInEditor :: "string \<Rightarrow> editor_result"

definition emit :: "event list \<Rightarrow> event list \<times> completion \<Rightarrow> event list \<times> completion" where
  "emit evs r = (evs @ fst r, snd r)"

text \<open>
  \<open>Array.prototype.sort\<close> with a comparison function: a stable sort, each element
  going before the first one it is less than.
\<close>

fun insert_by :: "('a \<Rightarrow> 'a \<Rightarrow> int) \<Rightarrow> 'a \<Rightarrow> 'a list \<Rightarrow> 'a list" where
  "insert_by cmp x [] = [x]"
| "insert_by cmp x (y # ys) = (if cmp x y < 0 then x # y # ys else y # insert_by cmp x ys)"

definition array_sort :: "('a \<Rightarrow> 'a \<Rightarrow> int) \<Rightarrow> 'a list \<Rightarrow> 'a list" where
  "array_sort cmp xs = foldl (\<lambda>acc x. insert_by cmp x acc) [] xs"

text \<open>
  The comparison function of \<open>completed\<close> hands the two items themselves, not their
  names, to \<open>normalizeString\<close>, which takes the string of what it is given. An item is
  an object literal with no \<open>toString\<close> of its own, so its string is
  \<open>[object Object]\<close>, whatever its fields are.
\<close>

definition object_toString :: "'a \<Rightarrow> string option" where
  "object_toString x = Some ''[object Object]''"

definition compare_items :: "'a \<Rightarrow> 'a \<Rightarrow> int" where
  "compare_items x y =
     compareValues (normalizeString (toStringSafe (object_toString x)))
                   (normalizeString (toStringSafe (object_toString y)))"

definition toDateTime :: "workspace \<Rightarrow> nat \<Rightarrow> string" where
  "toDateTime w x = format_date w x"

definition normalizePath :: "string \<Rightarrow> string" where
  "normalizePath p =
     (if p = [] then p
      else replaceAllStrings (replaceAllStrings p (CHR 0x5C) (CHR ''/'')) Path_sep (CHR ''/''))"

definition API_WORKSPACE :: string where
  "API_WORKSPACE = ''/api/workspace''"

text \<open>The \<open>path\<close> of an entry of the listing.\<close>

definition item_path :: "workspace \<Rightarrow> string option \<Rightarrow> string \<Rightarrow> string" where
  "item_path w relativePath nm =
     API_WORKSPACE @
     join_slash (map (encodeURIComponent w)
                   (split_slash (normalizePath (toStringSafe relativePath)) @ [nm]))"

definition dir_entry :: "workspace \<Rightarrow> string option \<Rightarrow> FileSystemItem \<Rightarrow> list_entry" where
  "dir_entry w relativePath x =
     \<lparr> creationTime = toDateTime w (item_birthtime x),
       lastChangeTime = toDateTime w (item_ctime x),
       lastModifiedTime = toDateTime w (item_mtime x),
       entry_mime = None,
       entry_name = item_name x,
       entry_path = item_path w relativePath (item_name x),
       entry_type = ''dir'' \<rparr>"

definition file_entry :: "workspace \<Rightarrow> string option \<Rightarrow> FileItem \<Rightarrow> list_entry" where
  "file_entry w relativePath x =
     \<lparr> creationTime = toDateTime w (item_birthtime x),
       lastChangeTime = toDateTime w (item_ctime x),
       lastModifiedTime = toDateTime w (item_mtime x),
       entry_mime = Some (item_mime x),
       entry_name = item_name x,
       entry_path = item_path w relativePath (item_name x),
       entry_type = ''file'' \<rparr>"

text \<open>The \<open>parent\<close> of the listing.\<close>

definition parent_link :: "workspace \<Rightarrow> string \<Rightarrow> string option" where
  "parent_link w dir =
     (let parentDir = path_parent w dir
      in case toRelativePath w parentDir of
           None \<Rightarrow> None
         | Some relativeParentDir \<Rightarrow>
             if parentDir \<noteq> path_resolve w dir
             then (let r = replaceAllStrings relativeParentDir (CHR 0x5C) (CHR ''/'');
                       r = replaceAllStrings r Path_sep (CHR ''/'')
                   in Some (API_WORKSPACE @
                            join_slash (map (encodeURIComponent w) (split_slash (normalizePath r)))))
             else None)"

text \<open>The object \<open>list\<close> that \<open>completed\<close> builds when the last child is done.\<close>

definition build_list ::
  "workspace \<Rightarrow> string \<Rightarrow> FileSystemItem list \<Rightarrow> FileItem list \<Rightarrow> listing" where
  "build_list w dir ds fs =
     (let ds = array_sort compare_items ds;
          fs = array_sort compare_items fs;
          relativePath = toRelativePath w dir
      in \<lparr> dirs = map (dir_entry w relativePath) ds,
           files = map (file_entry w relativePath) fs,
           parent = parent_link w dir \<rparr>)"

text \<open>
  \<open>completed()\<close> of \<open>handleDirectory\<close>. The assignment to \<open>response.data\<close> throws when
  the response is deleted: inside the \<open>then\<close> of a visibility check (\<open>guarded\<close>) the
  \<open>catch\<close> turns that into a rejection, in a callback of the file system nothing does.
\<close>

definition completed_list ::
  "workspace \<Rightarrow> ApiContext \<Rightarrow> string \<Rightarrow> bool \<Rightarrow> FileSystemItem list \<Rightarrow> FileItem list \<Rightarrow> completion" where
  "completed_list w apiCtx dir guarded ds fs =
     (case response apiCtx of
        None \<Rightarrow> (if guarded then Rejected TypeError else Uncaught TypeError)
      | Some r \<Rightarrow>
          Resolved (apiCtx\<lparr> response := Some (r\<lparr> data := Some (Listing (build_list w dir ds fs)) \<rparr>) \<rparr>))"

definition hasLeadingDot :: "string \<Rightarrow> bool" where
  "hasLeadingDot d = (take 1 (normalizeString d) = ''.'')"

fun nextItem ::
  "workspace \<Rightarrow> ApiContext \<Rightarrow> string \<Rightarrow> bool \<Rightarrow> FileSystemItem list \<Rightarrow> FileItem list \<Rightarrow>
   string list \<Rightarrow> event list \<times> completion" where
  "nextItem w apiCtx dir guarded ds fs [] = ([], completed_list w apiCtx dir guarded ds fs)"
| "nextItem w apiCtx dir guarded ds fs (i # items) =
     (let fullPath = path_join w dir i
      in case fs_lstat w fullPath of
           Inl e \<Rightarrow> ([FsLstat fullPath], Rejected e)
         | Inr stats \<Rightarrow>
             if stat_kind stats = Directory then
               (let addDir = (if hasLeadingDot i
                              then toBooleanSafe (withDot (config (request apiCtx))) False
                              else True);
                    ds' = (if addDir
                           then ds @ [\<lparr> item_birthtime = stat_birthtime stats,
                                      item_ctime = stat_ctime stats, item_fullPath = fullPath,
                                      item_mtime = stat_mtime stats, item_name = i \<rparr>]
                           else ds)
                in emit [FsLstat fullPath] (nextItem w apiCtx dir False ds' fs items))
             else if stat_kind stats = RegularFile then
               (case user (request apiCtx) of
                  None \<Rightarrow> ([FsLstat fullPath], Uncaught TypeError)
                | Some u \<Rightarrow>
                    (case isFileVisible u fullPath of
                       Inl e \<Rightarrow> ([FsLstat fullPath, IsFileVisible fullPath], Rejected e)
                     | Inr isVisible \<Rightarrow>
                         (let fs' = (if isVisible
                                     then fs @ [\<lparr> item_birthtime = stat_birthtime stats,
                                                item_ctime = stat_ctime stats,
                                                item_fullPath = fullPath,
                                                item_mtime = stat_mtime stats, item_name = i,
                                                item_mime = detectMimeByFilename w i,
                                                item_size = stat_size stats \<rparr>]
                                     else fs)
                          in emit [FsLstat fullPath, IsFileVisible fullPath]
                               (nextItem w apiCtx dir True ds fs' items))))
             else emit [FsLstat fullPath] (nextItem w apiCtx dir False ds fs items))"

text \<open>
  \<open>handleDirectory\<close>. An assignment to a header of a context whose headers are deleted
  throws inside the executor of the promise, which rejects it.
\<close>

definition handleDirectory :: "workspace \<Rightarrow> ApiContext \<Rightarrow> string \<Rightarrow> event list \<times> completion" where
  "handleDirectory w apiCtx dir =
     (case headers apiCtx of
        None \<Rightarrow> ([], Rejected TypeError)
      | Some hs \<Rightarrow>
          (let apiCtx = apiCtx\<lparr> headers := Some (hs(HEADER_FILE_TYPE \<mapsto> ''directory'')) \<rparr>
           in case fs_readdir w dir of
                Inl e \<Rightarrow> ([FsReaddir dir], Rejected e)
              | Inr items \<Rightarrow> emit [FsReaddir dir] (nextItem w apiCtx dir False [] [] items)))"

definition handleFile :: "workspace \<Rightarrow> ApiContext \<Rightarrow> string \<Rightarrow> event list \<times> completion" where
  "handleFile w apiCtx file =
     (case headers apiCtx of
        None \<Rightarrow> ([], Rejected TypeError)
      | Some hs \<Rightarrow>
          (let apiCtx = apiCtx\<lparr> headers := Some (hs(HEADER_FILE_TYPE \<mapsto> ''file'')) \<rparr>
           in if methodName (request apiCtx) = ''get'' then
                (case fs_readFile w file of
                   Inl e \<Rightarrow> ([FsReadFile file], Rejected e)
                 | Inr d \<Rightarrow>
                     ([FsReadFile file],
                      Resolved (setContent (Some d) (Some (detectMimeByFilename w file)) apiCtx)))
              else if methodName (request apiCtx) = ''post'' then
                (case openInEditor w file of
                   Shown \<Rightarrow> ([OpenTextDocument file], Resolved apiCtx)
                 | ShowFailed e \<Rightarrow>
                     (case response apiCtx of
                        None \<Rightarrow> ([OpenTextDocument file], Uncaught TypeError)
                      | Some r \<Rightarrow>
                          ([OpenTextDocument file],
                           Resolved (apiCtx\<lparr> response := Some (r\<lparr> code := 1 \<rparr>) \<rparr>)))
                 | OpenFailed e \<Rightarrow> ([OpenTextDocument file], Rejected e)
                 | OpenThrew e \<Rightarrow> ([OpenTextDocument file], Rejected e))
              else ([], Resolved (sendMethodNotAllowed apiCtx))))"

text \<open>
  The path \<open>fullPath\<close> of \<open>request\<close>: the segments after the third slash-separated
  piece of the path name, decoded, the empty ones dropped, joined onto the workspace
  root. A segment that does not decode, or a missing workspace root, throws.
\<close>

definition URIError :: err where
  "URIError = Err ''URIError''"

definition request_fullPath :: "workspace \<Rightarrow> ApiContext \<Rightarrow> err + string" where
  "request_fullPath w apiCtx =
     (let normalizedPath = toStringSafe (pathname (request apiCtx));
          normalizedPath = replaceAllStrings normalizedPath (CHR 0x5C) (CHR ''/'');
          normalizedPath = replaceAllStrings normalizedPath Path_sep (CHR ''/'');
          decoded = map (decodeURIComponent w) (drop 3 (split_slash normalizedPath))
      in if None \<in> set decoded then Inl URIError
         else (let parts = filter (\<lambda>x. x \<noteq> []) (map the decoded)
               in case rootPath w of
                    None \<Rightarrow> Inl TypeError
                  | Some root \<Rightarrow> Inr (path_join w root (join_slash parts))))"

text \<open>
  The function \<open>request\<close> of the module (its name is taken by the field of the context,
  so it is \<open>request_handler\<close> here) with its two closures. \<open>completed\<close> is made by
  \<open>createSimplePromiseCompletedAction\<close> (helpers.ts, not among the sources), which is
  taken to do what the \<open>completed\<close> of \<open>handleDirectory\<close> does: it rejects the promise
  when it is given an error and resolves it otherwise.
\<close>

definition notFound :: "ApiContext \<Rightarrow> completion" where
  "notFound apiCtx = Resolved (sendNotFound apiCtx)"

definition methodNotAllowed :: "ApiContext \<Rightarrow> completion" where
  "methodNotAllowed apiCtx = Resolved (sendMethodNotAllowed apiCtx)"

definition request_handler :: "workspace \<Rightarrow> ApiMethod" where
  "request_handler w apiCtx =
     (case request_fullPath w apiCtx of
        Inl e \<Rightarrow> ([], Rejected e)
      | Inr fullPath \<Rightarrow>
          (case toRelativePath w fullPath of
             None \<Rightarrow> ([], notFound apiCtx)
           | Some relativePath \<Rightarrow>
               if fs_exists w fullPath then
                 (case fs_lstat w fullPath of
                    Inl e \<Rightarrow> ([FsExists fullPath, FsLstat fullPath], Rejected e)
                  | Inr stats \<Rightarrow>
                      if stat_kind stats = Directory then
                        (if methodName (request apiCtx) = ''get'' then
                           (let isVisible =
                                  (if take 1 (normalizeString (path_basename w fullPath)) = ''.''
                                   then toBooleanSafe (withDot (config (request apiCtx))) False
                                   else True)
                            in if isVisible
                               then emit [FsExists fullPath, FsLstat fullPath]
                                      (handleDirectory w apiCtx fullPath)
                               else ([FsExists fullPath, FsLstat fullPath], notFound apiCtx))
                         else ([FsExists fullPath, FsLstat fullPath], methodNotAllowed apiCtx))
                      else if stat_kind stats = RegularFile then
                        (case user (request apiCtx) of
                           None \<Rightarrow> ([FsExists fullPath, FsLstat fullPath], Uncaught TypeError)
                         | Some u \<Rightarrow>
                             (case isFileVisible u fullPath of
                                Inl e \<Rightarrow>
                                  ([FsExists fullPath, FsLstat fullPath, IsFileVisible fullPath],
                                   Rejected e)
                              | Inr v \<Rightarrow>
                                  emit [FsExists fullPath, FsLstat fullPath, IsFileVisible fullPath]
                                    (handleFile w apiCtx fullPath)))
                      else ([FsExists fullPath, FsLstat fullPath], notFound apiCtx))
               else ([FsExists fullPath], notFound apiCtx)))"

text \<open>The exports of the module: \<open>get\<close> and \<open>post\<close> are both \<open>request\<close>.\<close>

definition workspace_module :: "workspace \<Rightarrow> module" where
  "workspace_module w = [(''get'', Fn (request_handler w)), (''post'', Fn (request_handler w))]"

section \<open>A POSIX workspace\<close>

text \<open>
  The functions of \<open>path\<close> on a POSIX host. A path is cut at its slashes; going through
  the segments, an empty one and \<open>.\<close> are dropped, and \<open>..\<close> takes the segment before
  it away, unless there is none or it is \<open>..\<close> itself: then \<open>..\<close> is kept in a relative
  path and dropped in an absolute one.
\<close>

definition norm_step :: "bool \<Rightarrow> string list \<Rightarrow> string \<Rightarrow> string list" where
  "norm_step allowAboveRoot acc s =
     (if s = [] \<or> s = ''.'' then acc
      else if s = ''..'' then
        (if acc \<noteq> [] \<and> last acc \<noteq> ''..'' then butlast acc
         else if allowAboveRoot then acc @ [''..''] else acc)
      else acc @ [s])"

text \<open>The segments of an absolute path.\<close>

definition path_segments :: "string \<Rightarrow> string list" where
  "path_segments p = foldl (norm_step False) [] (split_slash p)"

definition render_segments :: "string list \<Rightarrow> string" where
  "render_segments segs = concat (map (\<lambda>s. CHR ''/'' # s) segs)"

definition absolute_path :: "string list \<Rightarrow> string" where
  "absolute_path segs = (if segs = [] then ''/'' else render_segments segs)"

text \<open>
  \<open>Path.normalize\<close>: the empty path is \<open>.\<close>; a leading slash and a trailing slash are
  kept.
\<close>

definition posix_normalize :: "string \<Rightarrow> string" where
  "posix_normalize p =
     (if p = [] then ''.''
      else (let isAbsolute = (hd p = CHR ''/'');
                trailingSeparator = (last p = CHR ''/'');
                segs = foldl (norm_step (\<not> isAbsolute)) [] (split_slash p)
            in if segs = []
               then (if isAbsolute then ''/'' else if trailingSeparator then ''./'' else ''.'')
               else (if isAbsolute then ''/'' else []) @ join_slash segs
                    @ (if trailingSeparator then ''/'' else [])))"

text \<open>\<open>Path.join\<close> of two paths: the empty ones are left out.\<close>

definition posix_join :: "string \<Rightarrow> string \<Rightarrow> string" where
  "posix_join a b =
     (if a = [] then (if b = [] then ''.'' else posix_normalize b)
      else if b = [] then posix_normalize a
      else posix_normalize (a @ ''/'' @ b))"

text \<open>
  \<open>Path.resolve(p)\<close> and \<open>Path.resolve(p, '..')\<close>, for the working directory \<open>cwd\<close> of
  the process (an absolute path): a relative path is taken from the working directory,
  and the result is absolute, with no trailing slash.
\<close>

definition from_cwd :: "string \<Rightarrow> string \<Rightarrow> string" where
  "from_cwd cwd p = (if take 1 p = ''/'' then p else cwd @ ''/'' @ p)"

definition posix_resolve :: "string \<Rightarrow> string \<Rightarrow> string" where
  "posix_resolve cwd p = absolute_path (path_segments (from_cwd cwd p))"

definition posix_parent :: "string \<Rightarrow> string \<Rightarrow> string" where
  "posix_parent cwd p = absolute_path (path_segments (from_cwd cwd p @ ''/..''))"

text \<open>\<open>Path.basename\<close>: the last segment that is not empty.\<close>

definition posix_basename :: "string \<Rightarrow> string" where
  "posix_basename p =
     (case filter (\<lambda>s. s \<noteq> []) (split_slash p) of [] \<Rightarrow> [] | s # ss \<Rightarrow> last (s # ss))"

text \<open>
  Modelled from the spec: \<open>toRelativePath\<close> (helpers.ts, not among the sources)
  "computes the path's location relative to the root", and fails for a path that
  "escapes the root". The location is what follows the root in the path: empty for the
  root itself, and starting with a slash otherwise.
\<close>

definition toRelativePath_in :: "string \<Rightarrow> string \<Rightarrow> string option" where
  "toRelativePath_in root p =
     (let r = path_segments root; q = path_segments p
      in if prefix r q then Some (render_segments (drop (length r) q)) else None)"

text \<open>
  \<open>encodeURIComponent\<close> on the bytes of a string: a letter, a digit or one of
  \<open>- _ . ! ~ * ' ( )\<close> stands for itself, any other byte is written as a percent sign
  and two hexadecimal digits.
\<close>

definition unreserved :: "char \<Rightarrow> bool" where
  "unreserved c = (c \<in> set (ascii_upper @ ascii_lower @ ''0123456789-_.!~*()'' @ [CHR 0x27]))"

definition hex_digit :: "nat \<Rightarrow> char" where
  "hex_digit n = ''0123456789ABCDEF'' ! (n mod 16)"

definition uri_encode_char :: "char \<Rightarrow> string" where
  "uri_encode_char c =
     (if unreserved c then [c]
      else [CHR ''%'', hex_digit (of_char c div 16), hex_digit (of_char c)])"

definition uri_encode :: "string \<Rightarrow> string" where
  "uri_encode s = concat (map uri_encode_char s)"

text \<open>
  \<open>decodeURIComponent\<close>. A percent sign must be followed by two hexadecimal digits, and
  stands with them for the byte they spell; every other character stands for itself.
\<close>

definition hex_value :: "char \<Rightarrow> nat option" where
  "hex_value c =
     map_of (zip ''0123456789abcdefABCDEF''
               [0, 1, 2, 3, 4, 5, 6, 7, 8, 9, 10, 11, 12, 13, 14, 15, 10, 11, 12, 13, 14, 15]) c"

definition hex_byte :: "char \<Rightarrow> char \<Rightarrow> nat option" where
  "hex_byte d e =
     (case hex_value d of
        None \<Rightarrow> None
      | Some a \<Rightarrow> (case hex_value e of None \<Rightarrow> None | Some b \<Rightarrow> Some (16 * a + b)))"

datatype uri_item = Lit char | Esc nat

fun unescape :: "string \<Rightarrow> uri_item list option" where
  "unescape [] = Some []"
| "unescape [c] = (if c = CHR ''%'' then None else Some [Lit c])"
| "unescape [c, d] = (if c = CHR ''%'' then None else map_option ((#) (Lit c)) (unescape [d]))"
| "unescape (c # d # e # rest) =
     (if c = CHR ''%'' then
        (case hex_byte d e of
           None \<Rightarrow> None
         | Some b \<Rightarrow> map_option ((#) (Esc b)) (unescape rest))
      else map_option ((#) (Lit c)) (unescape (d # e # rest)))"

text \<open>
  The escaped bytes from 128 on must spell characters in UTF-8, each by escapes alone: a
  first byte that announces one, two or three more, and then that many bytes between
  \<open>lo\<close> and \<open>hi\<close>, which are 128 and 191 but for the byte after the first bytes 224,
  237, 240 and 244 (no overlong form, no surrogate, nothing beyond U+10FFFF). \<open>pending\<close>
  is the number of bytes still due.
\<close>

fun well_formed :: "nat \<Rightarrow> nat \<Rightarrow> nat \<Rightarrow> uri_item list \<Rightarrow> bool" where
  "well_formed pending lo hi [] = (pending = 0)"
| "well_formed pending lo hi (Lit c # xs) = (pending = 0 \<and> well_formed 0 128 191 xs)"
| "well_formed pending lo hi (Esc b # xs) =
     (if pending = 0 then
        (if b < 128 then well_formed 0 128 191 xs
         else if 194 \<le> b \<and> b \<le> 223 then well_formed 1 128 191 xs
         else if b = 224 then well_formed 2 160 191 xs
         else if b = 237 then well_formed 2 128 159 xs
         else if 225 \<le> b \<and> b \<le> 239 then well_formed 2 128 191 xs
         else if b = 240 then well_formed 3 144 191 xs
         else if b = 244 then well_formed 3 128 143 xs
         else if 241 \<le> b \<and> b \<le> 243 then well_formed 3 128 191 xs
         else False)
      else (lo \<le> b \<and> b \<le> hi \<and> well_formed (pending - 1) 128 191 xs))"

text \<open>The character of a byte, from its bits.\<close>

definition byte_char :: "nat \<Rightarrow> char" where
  "byte_char n =
     Char (odd n) (odd (n div 2)) (odd (n div 4)) (odd (n div 8))
          (odd (n div 16)) (odd (n div 32)) (odd (n div 64)) (odd (n div 128))"

fun item_char :: "uri_item \<Rightarrow> char" where
  "item_char (Lit c) = c"
| "item_char (Esc b) = byte_char b"

definition uri_decode :: "string \<Rightarrow> string option" where
  "uri_decode s =
     (case unescape s of
        None \<Rightarrow> None
      | Some items \<Rightarrow> if well_formed 0 128 191 items then Some (map item_char items) else None)"

section \<open>An example installation\<close>

text \<open>
  A workspace \<open>/ws\<close> that holds the files \<open>b.txt\<close> and \<open>a.txt\<close> and the empty
  directory \<open>A\<close>, listed in this order, on a POSIX host; a user who sees every file; a
  host that serves the module \<open>workspace\<close> and whose compressor passes the payload on.
\<close>

definition example_user :: user where
  "example_user =
     \<lparr> isGuest = False, account_name = Some ''Admin'', isFileVisible = (\<lambda>p. Inr True) \<rparr>"

definition example_stats :: "file_kind \<Rightarrow> Stats" where
  "example_stats k =
     \<lparr> stat_kind = k, stat_birthtime = 0, stat_ctime = 0, stat_mtime = 0, stat_size = 5 \<rparr>"

definition example_workspace :: workspace where
  "example_workspace =
     \<lparr> rootPath = Some ''/ws'',
       path_join = posix_join,
       path_resolve = posix_resolve ''/'',
       path_parent = posix_parent ''/'',
       path_basename = posix_basename,
       decodeURIComponent = uri_decode,
       encodeURIComponent = uri_encode,
       toRelativePath = toRelativePath_in ''/ws'',
       detectMimeByFilename = (\<lambda>f. ''text/plain''),
       format_date = (\<lambda>t. ''1970-01-01 00:00:00''),
       fs_exists = (\<lambda>p. p \<in> set [''/ws'', ''/ws/A'', ''/ws/b.txt'', ''/ws/a.txt'']),
       fs_lstat = (\<lambda>p. if p \<in> set [''/ws'', ''/ws/A''] then Inr (example_stats Directory)
                        else if p \<in> set [''/ws/b.txt'', ''/ws/a.txt'']
                        then Inr (example_stats RegularFile)
                        else Inl (Err ''ENOENT'')),
       fs_readdir = (\<lambda>p. if p = ''/ws'' then Inr [''b.txt'', ''A'', ''a.txt'']
                          else if p = ''/ws/A'' then Inr []
                          else Inl (Err ''ENOTDIR'')),
       fs_readFile = (\<lambda>p. if p \<in> set [''/ws/b.txt'', ''/ws/a.txt''] then Inr ''hello''
                           else Inl (Err ''ENOENT'')),
       openInEditor = (\<lambda>p. Shown) \<rparr>"

definition example_host :: host where
  "example_host =
     \<lparr> cfg = \<lparr> withDot = None \<rparr>,
       now = 0,
       format_time = (\<lambda>t. ''1970-01-01 00:00:00''),
       urlParamsToObject = (\<lambda>q. []),
       getUser = (\<lambda>ctx. Inr (Some example_user)),
       cleanupString = filter (\<lambda>c. c \<in> set (ascii_lower @ ''0123456789_'')),
       require = (\<lambda>n. if n = ''workspace'' then Some (workspace_module example_workspace)
                       else None),
       compressForResponse =
         (\<lambda>p ctx enc. Inr \<lparr> contentEncoding = None, dataToSend = Plain p \<rparr>) \<rparr>"

definition example_request :: "string \<Rightarrow> string \<Rightarrow> IncomingMessage" where
  "example_request m p =
     \<lparr> req_method = Some m, req_pathname = Some p, req_query = None,
       req_remoteAddress = Some ''127.0.0.1'' \<rparr>"

definition example_context :: "string \<Rightarrow> string \<Rightarrow> RequestContext" where
  "example_context m p =
     \<lparr> config = \<lparr> withDot = None \<rparr>, GET = [], methodName = m,
       remoteAddress = Some ''127.0.0.1'', time = 0, pathname = Some p,
       user = Some example_user \<rparr>"

definition example_response :: ApiResponse where
  "example_response = \<lparr> code = 0, data = None, msg = None \<rparr>"

text \<open>Two more hosts: one whose compressor answers with gzip, one whose compressor fails.\<close>

definition gzip_host :: host where
  "gzip_host = example_host\<lparr> compressForResponse :=
      (\<lambda>p ctx enc. Inr \<lparr> contentEncoding = Some ''gzip'', dataToSend = Bytes ''compressed'' \<rparr>) \<rparr>"

definition failing_host :: host where
  "failing_host = example_host\<lparr> compressForResponse := (\<lambda>p ctx enc. Inl (Err ''zlib'')) \<rparr>"

text \<open>A host whose user collaborator resolves nobody.\<close>

definition anonymous_host :: host where
  "anonymous_host = example_host\<lparr> getUser := (\<lambda>ctx. Inr None) \<rparr>"

text \<open>A user who sees every file but \<open>/ws/b.txt\<close>, and a request of that user.\<close>

definition selective_user :: user where
  "selective_user = example_user\<lparr> isFileVisible := (\<lambda>p. Inr (p \<noteq> ''/ws/b.txt'')) \<rparr>"

definition selective_context :: RequestContext where
  "selective_context =
     (example_context ''get'' ''/api/workspace'')\<lparr> user := Some selective_user \<rparr>"

text \<open>
  A POSIX workspace \<open>/ws\<close> with a directory whose name is \<open>a\<close>, a backslash, \<open>b\<close>, and
  a directory \<open>c\<close> in it.
\<close>

definition backslash_name :: string where
  "backslash_name = ''a'' @ [CHR 0x5C] @ ''b''"

definition backslash_workspace :: workspace where
  "backslash_workspace =
     example_workspace
       \<lparr> fs_exists := (\<lambda>p. p \<in> set [''/ws'', ''/ws/'' @ backslash_name,
                                         ''/ws/'' @ backslash_name @ ''/c'']),
         fs_lstat := (\<lambda>p. if p \<in> set [''/ws'', ''/ws/'' @ backslash_name,
                                         ''/ws/'' @ backslash_name @ ''/c'']
                          then Inr (example_stats Directory) else Inl (Err ''ENOENT'')),
         fs_readdir := (\<lambda>p. if p = ''/ws'' then Inr [backslash_name]
                            else if p = ''/ws/'' @ backslash_name then Inr [''c'']
                            else if p = ''/ws/'' @ backslash_name @ ''/c'' then Inr []
                            else Inl (Err ''ENOTDIR'')) \<rparr>"

text \<open>A POSIX workspace \<open>/ws\<close> with an empty directory \<open>B\<close> in a directory \<open>x y\<close>.\<close>

definition nested_workspace :: workspace where
  "nested_workspace =
     example_workspace
       \<lparr> fs_exists := (\<lambda>p. p \<in> set [''/ws'', ''/ws/x y'', ''/ws/x y/B'']),
         fs_lstat := (\<lambda>p. if p \<in> set [''/ws'', ''/ws/x y'', ''/ws/x y/B'']
                          then Inr (example_stats Directory) else Inl (Err ''ENOENT'')),
         fs_readdir := (\<lambda>p. if p = ''/ws'' then Inr [''x y'']
                            else if p = ''/ws/x y'' then Inr [''B'']
                            else if p = ''/ws/x y/B'' then Inr []
                            else Inl (Err ''ENOTDIR'')) \<rparr>"

text \<open>
  A module that is not among the sources: its handler for \<open>get\<close> assigns the content
  and leaves the response where it is. A host that loads it for every name.
\<close>

definition careless_module :: module where
  "careless_module = [(''get'', Fn (\<lambda>ac. ([], Returned (ac\<lparr> content := Some ''text'' \<rparr>))))]"

definition careless_host :: host where
  "careless_host = example_host\<lparr> require := (\<lambda>n. Some careless_module) \<rparr>"

section \<open>Predicates of the claims\<close>

definition both_populated :: "ApiContext \<Rightarrow> bool" where
  "both_populated ac = (content ac \<noteq> None \<and> response ac \<noteq> None)"

definition exactly_one_populated :: "ApiContext \<Rightarrow> bool" where
  "exactly_one_populated ac = ((content ac \<noteq> None) \<noteq> (response ac \<noteq> None))"

text \<open>The type header of a response, when it has one.\<close>

definition type_header :: "outcome \<Rightarrow> string option" where
  "type_header out =
     (case out of
        Written r \<Rightarrow> (case sent_headers r of None \<Rightarrow> None | Some hs \<Rightarrow> hs HEADER_FILE_TYPE)
      | _ \<Rightarrow> None)"

text \<open>The body of a response, and the listing it carries.\<close>

definition body_of :: "outcome \<Rightarrow> body option" where
  "body_of out = (case out of Written r \<Rightarrow> Some (sent_body r) | _ \<Rightarrow> None)"

definition listing_of :: "outcome \<Rightarrow> listing option" where
  "listing_of out =
     (case body_of out of
        Some (Plain (Structured r)) \<Rightarrow> (case data r of Some (Listing l) \<Rightarrow> Some l | _ \<Rightarrow> None)
      | _ \<Rightarrow> None)"

text \<open>The listing a handler resolved with.\<close>

definition resolved_listing :: "completion \<Rightarrow> listing option" where
  "resolved_listing c =
     (case c of
        Resolved ac \<Rightarrow>
          (case response ac of
             Some r \<Rightarrow> (case data r of Some (Listing l) \<Rightarrow> Some l | _ \<Rightarrow> None)
           | None \<Rightarrow> None)
      | _ \<Rightarrow> None)"

text \<open>
  A segment of a resolved path: not empty, not \<open>.\<close> or \<open>..\<close>, and without a slash.
\<close>

definition proper_segment :: "string \<Rightarrow> bool" where
  "proper_segment s = (s \<noteq> [] \<and> s \<noteq> ''.'' \<and> s \<noteq> ''..'' \<and> CHR ''/'' \<notin> set s)"

section \<open>Evaluating the model\<close>

text \<open>The defining equations, grouped for the evaluation of closed terms by the simplifier.\<close>

lemmas string_eval = toLowerCase_def lower_char_def ascii_upper_def ascii_lower_def trim_def
  is_space_def toStringSafe_def normalizeString_def isEmptyString_def replaceAllStrings_def
  Path_sep_def toBooleanSafe_def compareValues_def

lemmas posix_eval = norm_step_def path_segments_def render_segments_def absolute_path_def
  posix_normalize_def posix_join_def from_cwd_def posix_resolve_def posix_parent_def
  posix_basename_def toRelativePath_in_def unreserved_def hex_digit_def uri_encode_char_def
  uri_encode_def hex_value_def hex_byte_def byte_char_def uri_decode_def

lemmas example_eval = example_user_def example_stats_def example_workspace_def example_host_def
  example_request_def example_context_def example_response_def

lemmas dispatcher_eval = requestListener_def listener_context_def handleRequest_def
  REGEX_API_test_def handleApi_def select_method_def api_parts_def root_method_def
  method_not_allowed_def sendResponse_def response_encoding_def responseData_def
  sendResponseData_def new_apiCtx_def DEFAULT_ENCODING_def setContent_def sendNotFound_def
  sendMethodNotAllowed_def

lemmas handler_eval = workspace_module_def request_handler_def request_fullPath_def notFound_def
  methodNotAllowed_def handleDirectory_def handleFile_def completed_list_def build_list_def
  parent_link_def dir_entry_def file_entry_def item_path_def normalizePath_def toDateTime_def
  API_WORKSPACE_def HEADER_FILE_TYPE_def emit_def hasLeadingDot_def array_sort_def
  compare_items_def object_toString_def

section \<open>Strings\<close>

lemma replace_Path_sep [simp]: "replaceAllStrings s Path_sep (CHR ''/'') = s"
  by (simp add: replaceAllStrings_def Path_sep_def map_idI)

lemma replace_no_backslash:
  "CHR 0x5C \<notin> set s \<Longrightarrow> replaceAllStrings s (CHR 0x5C) (CHR ''/'') = s"
  by (induction s) (auto simp: replaceAllStrings_def)

lemma lower_char_cases: "lower_char c = c \<or> lower_char c \<in> set ascii_lower"
  by (auto simp: lower_char_def split: option.splits dest!: map_of_SomeD set_zip_rightD)

lemma lower_char_fixed: "c \<notin> set ascii_upper \<Longrightarrow> lower_char c = c"
  by (auto simp: lower_char_def split: option.splits dest!: map_of_SomeD set_zip_leftD)

lemma lower_char_backslash [simp]: "(lower_char c = CHR 0x5C) = (c = CHR 0x5C)"
proof
  assume "lower_char c = CHR 0x5C"
  with lower_char_cases [of c] show "c = CHR 0x5C"
    by (auto simp: ascii_lower_def)
next
  assume "c = CHR 0x5C"
  then show "lower_char c = CHR 0x5C"
    by (simp add: lower_char_fixed ascii_upper_def)
qed

lemma lower_char_slash [simp]: "lower_char (CHR ''/'') = CHR ''/''"
  by (simp add: lower_char_fixed ascii_upper_def)

lemma is_space_lower_char [simp]: "is_space (lower_char c) = is_space c"
proof (cases "c \<in> set ascii_upper")
  case True
  then have "\<not> is_space c" by (auto simp: ascii_upper_def is_space_def)
  moreover from True have "lower_char c \<in> set ascii_lower"
    by (auto simp: ascii_upper_def lower_char_def ascii_lower_def)
  then have "\<not> is_space (lower_char c)" by (auto simp: ascii_lower_def is_space_def)
  ultimately show ?thesis by simp
next
  case False
  then show ?thesis by (simp add: lower_char_fixed)
qed

lemma trim_map:
  assumes "\<And>c. is_space (f c) = is_space c"
  shows "trim (map f s) = map f (trim s)"
  by (simp add: trim_def dropWhile_map rev_map comp_def assms)

lemma dropWhile_all_iff: "(\<forall>x\<in>set (dropWhile P xs). P x) = (\<forall>x\<in>set xs. P x)"
proof
  assume a: "\<forall>x\<in>set (dropWhile P xs). P x"
  have "dropWhile P xs = []"
  proof (rule ccontr)
    assume n: "dropWhile P xs \<noteq> []"
    then have "\<not> P (hd (dropWhile P xs))" by (rule hd_dropWhile)
    moreover from n have "hd (dropWhile P xs) \<in> set (dropWhile P xs)" by simp
    ultimately show False using a by blast
  qed
  then show "\<forall>x\<in>set xs. P x" by (simp add: dropWhile_eq_Nil_conv)
next
  assume "\<forall>x\<in>set xs. P x"
  then show "\<forall>x\<in>set (dropWhile P xs). P x" by (auto dest: set_dropWhileD)
qed

lemma trim_Nil_iff: "(trim s = []) = (\<forall>c\<in>set s. is_space c)"
  by (simp add: trim_def dropWhile_eq_Nil_conv dropWhile_all_iff)

lemma trim_trim_Nil_iff: "(trim (trim s) = []) = (trim s = [])"
proof
  assume a: "trim (trim s) = []"
  show "trim s = []"
  proof (rule ccontr)
    assume n: "trim s \<noteq> []"
    let ?d = "dropWhile is_space (rev (dropWhile is_space s))"
    from n have d: "?d \<noteq> []" by (simp add: trim_def)
    then have "\<not> is_space (hd ?d)" by (rule hd_dropWhile)
    moreover from d have "hd ?d \<in> set (trim s)" by (simp add: trim_def)
    ultimately show False using a by (auto simp: trim_Nil_iff)
  qed
next
  assume e: "trim s = []"
  show "trim (trim s) = []" unfolding e by (simp add: trim_def)
qed

lemma isEmptyString_normalizeString [simp]:
  "isEmptyString (normalizeString r) = isEmptyString r"
  by (simp add: isEmptyString_def normalizeString_def toLowerCase_def trim_map trim_trim_Nil_iff)

lemma normalizeString_replace:
  "normalizeString (replaceAllStrings s (CHR 0x5C) (CHR ''/''))
     = replaceAllStrings (normalizeString s) (CHR 0x5C) (CHR ''/'')"
proof -
  let ?f = "\<lambda>c. if c = CHR 0x5C then CHR ''/'' else c"
  have sp: "\<And>c. is_space (?f c) = is_space c" by (simp add: is_space_def)
  have "map lower_char (map ?f s) = map ?f (map lower_char s)" by simp
  then show ?thesis
    by (simp only: normalizeString_def toLowerCase_def replaceAllStrings_def
          trim_map [of ?f, OF sp])
qed

lemma split_slash_no_slash: "CHR ''/'' \<notin> set s \<Longrightarrow> split_slash s = [s]"
  by (induction s) auto

lemma split_slash_append:
  "CHR ''/'' \<notin> set s \<Longrightarrow> split_slash (s @ CHR ''/'' # t) = s # split_slash t"
  by (induction s) auto

section \<open>The response pipeline\<close>

lemma parseInt_number_small: "\<bar>n\<bar> < 10 ^ 21 \<Longrightarrow> parseInt_number n = n"
  by (simp add: parseInt_number_def)

lemma parseInt_number_status [simp]:
  "parseInt_number 200 = 200" "parseInt_number 404 = 404" "parseInt_number 405 = 405"
  by (simp_all add: parseInt_number_def)

text \<open>From \<open>10\<^sup>2\<^sup>1\<close> on, the status that is written is one digit.\<close>

lemma to_double_example: "to_double (10 ^ 23) = 99999999999999991611392"
  by (simp add: to_double_def bit_length.simps Let_def)

lemma exponent_digit_example: "exponent_digit 99999999999999991611392 = 1"
proof -
  have d: "leading_digit 99999999999999991611392 = 9" by (simp add: leading_digit.simps)
  have m: "decimal_length 99999999999999991611392 = 23" by (simp add: decimal_length.simps)
  have l: "leading_digit 10 = 1" by (simp add: leading_digit.simps)
  from d m l to_double_example show ?thesis by (simp add: exponent_digit_def)
qed

lemma exponent_digit_power: "exponent_digit (10 ^ 21) = 1"
proof -
  have d: "leading_digit (10 ^ 21) = 1" by (simp add: leading_digit.simps)
  have m: "decimal_length (10 ^ 21) = 22" by (simp add: decimal_length.simps)
  have r: "to_double (2 * 10 ^ 21) = 2 * 10 ^ 21"
    by (simp add: to_double_def bit_length.simps Let_def)
  from d m r show ?thesis by (simp add: exponent_digit_def)
qed

lemma parseInt_number_examples:
  "parseInt_number (10 ^ 21) = 1"
  "parseInt_number (- 99999999999999991611392) = - 1"
  "parseInt_number 999999999999999999999 = 999999999999999999999"
  using exponent_digit_example exponent_digit_power by (simp_all add: parseInt_number_def)

lemma status_sendResponse:
  "status_of (sendResponse h ctx ac None) =
     Some (case statusCode ac of None \<Rightarrow> 200 | Some n \<Rightarrow> parseInt_number n)"
  by (simp add: sendResponse_def status_of_def sendResponseData_def
           split: sum.splits option.splits)

lemma type_header_sendResponse:
  "type_header (sendResponse h ctx ac None) =
     (case headers ac of None \<Rightarrow> None | Some hs \<Rightarrow> hs HEADER_FILE_TYPE)"
  by (simp add: sendResponse_def type_header_def sendResponseData_def HEADER_FILE_TYPE_def
           split: sum.splits option.splits)

text \<open>
  C8: when the compressor resolves and names a content encoding, the response carries the
  header \<open>Content-encoding\<close> with that name and the data the compressor made; when the
  compressor is rejected, the response is still written, with the headers of the context
  as they are (nothing is added) and the payload as it was.
\<close>

theorem compression_best_effort:
  "(\<forall>cr ce. compressForResponse h (responseData ac) ctx (response_encoding ac) = Inr cr
        \<longrightarrow> contentEncoding cr = Some ce \<longrightarrow> ce \<noteq> []
        \<longrightarrow> sendResponse h ctx ac None =
              Written \<lparr> status = (case statusCode ac of None \<Rightarrow> 200 | Some n \<Rightarrow> parseInt_number n),
                        sent_headers = Some ((case headers ac of None \<Rightarrow> Map.empty | Some hs \<Rightarrow> hs)
                                             (''Content-encoding'' \<mapsto> ce)),
                        sent_body = dataToSend cr \<rparr>)
 \<and> (\<forall>e. compressForResponse h (responseData ac) ctx (response_encoding ac) = Inl e
        \<longrightarrow> sendResponse h ctx ac None =
              Written \<lparr> status = (case statusCode ac of None \<Rightarrow> 200 | Some n \<Rightarrow> parseInt_number n),
                        sent_headers = headers ac,
                        sent_body = Plain (responseData ac) \<rparr>)"
  by (simp add: sendResponse_def sendResponseData_def)

theorem compression_best_effort_witness:
  "body_of (sendResponse gzip_host (example_context ''get'' ''/api'')
             (new_apiCtx (example_context ''get'' ''/api'') example_response) None)
     = Some (Bytes ''compressed'')
 \<and> body_of (sendResponse failing_host (example_context ''get'' ''/api'')
             (new_apiCtx (example_context ''get'' ''/api'') example_response) None)
     = Some (Plain (Structured example_response))"
proof -
  let ?ctx = "example_context ''get'' ''/api''"
  let ?ac = "new_apiCtx ?ctx example_response"
  have g: "compressForResponse gzip_host (responseData ?ac) ?ctx (response_encoding ?ac)
             = Inr \<lparr> contentEncoding = Some ''gzip'', dataToSend = Bytes ''compressed'' \<rparr>"
    by (simp add: gzip_host_def)
  have f: "compressForResponse failing_host (responseData ?ac) ?ctx (response_encoding ?ac)
             = Inl (Err ''zlib'')"
    by (simp add: failing_host_def)
  have r: "responseData ?ac = Structured example_response"
    by (simp add: responseData_def new_apiCtx_def)
  from compression_best_effort [of gzip_host ?ac ?ctx] g
  have a: "body_of (sendResponse gzip_host ?ctx ?ac None) = Some (Bytes ''compressed'')"
    by (simp add: body_of_def)
  from compression_best_effort [of failing_host ?ac ?ctx] f r
  have b: "body_of (sendResponse failing_host ?ctx ?ac None)
             = Some (Plain (Structured example_response))"
    by (simp add: body_of_def)
  from a b show ?thesis by simp
qed

section \<open>The dispatcher\<close>

text \<open>
  C2: when the user collaborator resolves no user for the context the listener built, the
  listener calls \<open>sendUnauthorized\<close> (status 401) and nothing else: the trace of the
  request is empty, so no module is loaded and no handler runs.
\<close>

theorem unauthorized_request_stops:
  assumes "getUser h (listener_context h req) = Inr None"
  shows "requestListener h req = ([], HelperSendUnauthorized)
       \<and> status_of (snd (requestListener h req)) = Some 401"
  using assms by (simp add: requestListener_def status_of_def)

theorem unauthorized_request_stops_witness:
  "getUser anonymous_host
       (listener_context anonymous_host (example_request ''GET'' ''/api/workspace'')) = Inr None
   \<and> requestListener anonymous_host (example_request ''GET'' ''/api/workspace'')
        = ([], HelperSendUnauthorized)"
  using unauthorized_request_stops
          [of anonymous_host "example_request ''GET'' ''/api/workspace''"]
  by (simp add: anonymous_host_def)

lemma find_method_no_function:
  "\<forall>f. (m, Fn f) \<notin> set md \<Longrightarrow> find_method md m = None"
  by (induction md m rule: find_method.induct) (auto split: export.splits)

text \<open>
  C3: for a request whose first segment names a module (the cleaned name is not empty),
  a module that fails to load gives \<open>sendNotFound\<close> (status 404), and a module that
  loads but has no function under the name of the method gives a response of status
  405; in both cases the one module is all that the request loads.
\<close>

theorem module_not_found_or_method_not_allowed:
  assumes "api_parts (pathname ctx) = p # ps"
    and "\<not> isEmptyString (cleanupString h p)"
  shows "(require h (cleanupString h p) = None \<longrightarrow>
            handleApi h ctx resp = ([Require (cleanupString h p)], HelperSendNotFound)
          \<and> status_of (snd (handleApi h ctx resp)) = Some 404)
       \<and> (\<forall>md. require h (cleanupString h p) = Some md
               \<longrightarrow> (\<forall>f. (methodName ctx, Fn f) \<notin> set md)
               \<longrightarrow> fst (handleApi h ctx resp) = [Require (cleanupString h p)]
                 \<and> status_of (snd (handleApi h ctx resp)) = Some 405)"
proof (intro conjI impI allI)
  assume "require h (cleanupString h p) = None"
  with assms show "handleApi h ctx resp = ([Require (cleanupString h p)], HelperSendNotFound)"
    by (simp add: handleApi_def select_method_def)
  then show "status_of (snd (handleApi h ctx resp)) = Some 404"
    by (simp add: status_of_def)
next
  fix md
  assume ld: "require h (cleanupString h p) = Some md"
    and nf: "\<forall>f. (methodName ctx, Fn f) \<notin> set md"
  from nf have "find_method md (methodName ctx) = None" by (rule find_method_no_function)
  with assms ld
  have sel: "select_method h ctx = ([Require (cleanupString h p)], Some method_not_allowed)"
    by (simp add: select_method_def)
  then have run: "handleApi h ctx resp =
      ([Require (cleanupString h p)],
       sendResponse h ctx (sendMethodNotAllowed (new_apiCtx ctx resp)) None)"
    by (simp add: handleApi_def method_not_allowed_def)
  then show "fst (handleApi h ctx resp) = [Require (cleanupString h p)]" by simp
  from run show "status_of (snd (handleApi h ctx resp)) = Some 405"
    by (simp add: status_sendResponse sendMethodNotAllowed_def)
qed

lemma example_parts_nomodule: "api_parts (Some ''/api/nomodule'') = [''nomodule'']"
  by (simp add: api_parts_def string_eval Let_def)

lemma example_parts_workspace: "api_parts (Some ''/api/workspace'') = [''workspace'']"
  by (simp add: api_parts_def string_eval Let_def)

lemma example_clean_nomodule: "cleanupString example_host ''nomodule'' = ''nomodule''"
  by (simp add: example_host_def ascii_lower_def)

lemma example_clean_workspace: "cleanupString example_host ''workspace'' = ''workspace''"
  by (simp add: example_host_def ascii_lower_def)

theorem module_not_found_or_method_not_allowed_witness:
  "status_of (snd (handleApi example_host (example_context ''get'' ''/api/nomodule'')
                     example_response)) = Some 404
 \<and> status_of (snd (handleApi example_host (example_context ''put'' ''/api/workspace'')
                     example_response)) = Some 405"
proof -
  have p1: "api_parts (pathname (example_context ''get'' ''/api/nomodule'')) = [''nomodule'']"
    by (simp add: example_context_def example_parts_nomodule)
  have p2: "api_parts (pathname (example_context ''put'' ''/api/workspace'')) = [''workspace'']"
    by (simp add: example_context_def example_parts_workspace)
  have e1: "\<not> isEmptyString (cleanupString example_host ''nomodule'')"
    unfolding example_clean_nomodule by (simp add: string_eval)
  have e2: "\<not> isEmptyString (cleanupString example_host ''workspace'')"
    unfolding example_clean_workspace by (simp add: string_eval)
  have r1: "require example_host (cleanupString example_host ''nomodule'') = None"
    unfolding example_clean_nomodule by (simp add: example_host_def)
  have r2: "require example_host (cleanupString example_host ''workspace'')
              = Some (workspace_module example_workspace)"
    unfolding example_clean_workspace by (simp add: example_host_def)
  have nf: "\<forall>f. (methodName (example_context ''put'' ''/api/workspace''), Fn f)
                 \<notin> set (workspace_module example_workspace)"
    by (simp add: example_context_def workspace_module_def)
  from module_not_found_or_method_not_allowed [OF p1 e1, of example_response] r1
  have a: "status_of (snd (handleApi example_host (example_context ''get'' ''/api/nomodule'')
                             example_response)) = Some 404"
    by blast
  from module_not_found_or_method_not_allowed [OF p2 e2, of example_response] r2 nf
  have b: "status_of (snd (handleApi example_host (example_context ''put'' ''/api/workspace'')
                             example_response)) = Some 405"
    by blast
  from a b show ?thesis by simp
qed

text \<open>
  C7, as stated, fails: the name in \<open>me\<close> is the normalised name of the account, not the
  name itself. The account of the example is called \<open>Admin\<close>; the root resource answers
  \<open>admin\<close>.
\<close>

theorem root_resource_name_counterexample:
  "account_name example_user = Some ''Admin''
 \<and> body_of (snd (handleApi example_host (example_context ''get'' ''/api'') example_response))
     = Some (Plain (Structured \<lparr> code = 0,
          data = Some (Root \<lparr> addr = Some ''127.0.0.1'', time_text = ''1970-01-01 00:00:00'',
                               me = Some ''admin'' \<rparr>),
          msg = None \<rparr>))"
  by (simp add: dispatcher_eval example_eval string_eval body_of_def Let_def)

text \<open>
  C7, amended: for a request to the root resource (no segment after \<open>/api\<close>) of a
  resolved user, the handler returns at once, the status code stays 200, and the payload
  handed to the pipeline is the response object with \<open>data\<close> holding the remote address,
  the formatted request time and, exactly when the user is not a guest, \<open>me\<close> with the
  normalised (lower-cased, trimmed) name of the account.
\<close>

theorem root_resource_data:
  fixes h :: host and ctx :: RequestContext and resp :: ApiResponse and u :: user
  defines "d \<equiv> Root \<lparr> addr = remoteAddress ctx,
                       time_text = format_time h (time ctx),
                       me = (if isGuest u then None
                             else Some (normalizeString (toStringSafe (account_name u)))) \<rparr>"
  defines "ac \<equiv> (new_apiCtx ctx resp)\<lparr> response := Some (resp\<lparr> data := Some d \<rparr>) \<rparr>"
  assumes "api_parts (pathname ctx) = []"
    and "user ctx = Some u"
  shows "handleApi h ctx resp = ([], sendResponse h ctx ac None)
       \<and> statusCode ac = Some 200
       \<and> responseData ac = Structured (resp\<lparr> data := Some d \<rparr>)"
  using assms
  by (simp add: handleApi_def select_method_def root_method_def new_apiCtx_def responseData_def)

theorem root_resource_data_witness:
  "body_of (snd (handleApi failing_host (example_context ''get'' ''/api'') example_response))
     = Some (Plain (Structured (example_response\<lparr> data := Some (Root
          \<lparr> addr = Some ''127.0.0.1'', time_text = ''1970-01-01 00:00:00'',
            me = Some ''admin'' \<rparr>) \<rparr>)))"
proof -
  let ?ctx = "example_context ''get'' ''/api''"
  have p: "api_parts (pathname ?ctx) = []"
    by (simp add: example_context_def api_parts_def string_eval Let_def)
  have u: "user ?ctx = Some example_user"
    by (simp add: example_context_def)
  have n: "normalizeString (toStringSafe (account_name example_user)) = ''admin''"
    by (simp add: example_user_def string_eval)
  have f: "\<And>p c e. compressForResponse failing_host p c e = Inl (Err ''zlib'')"
    by (simp add: failing_host_def)
  from root_resource_data [OF p u, of failing_host example_response] n
  show ?thesis
    by (simp add: body_of_def sendResponse_def f sendResponseData_def example_context_def
          example_user_def failing_host_def example_host_def)
qed

lemma REGEX_API_prefix: "REGEX_API_test (''/api'' @ r)"
  by (simp add: REGEX_API_test_def toLowerCase_def lower_char_def ascii_upper_def ascii_lower_def)

lemma handleApi_events:
  "\<exists>evs. fst (handleApi h ctx resp) = fst (select_method h ctx) @ evs"
  by (auto simp: handleApi_def split: prod.splits option.splits completion.splits)

text \<open>
  C10: a path whose normalised (lower-cased) form starts with the four characters
  \<open>/api\<close> is handed to \<open>handleApi\<close>, whatever follows them; when what follows has no
  separator in it and is not blank, it is the one segment of the request, and the module
  that the dispatcher loads first is named by its cleaned, normalised form.
\<close>

theorem api_prefix_routes_to_module:
  assumes "pathname ctx = Some p"
    and "normalizeString p = ''/api'' @ r"
  shows "handleRequest h ctx = handleApi h ctx \<lparr> code = 0, data = None, msg = None \<rparr>
       \<and> (CHR ''/'' \<notin> set r \<and> CHR 0x5C \<notin> set r
          \<and> \<not> isEmptyString r \<and> \<not> isEmptyString (cleanupString h (normalizeString r))
          \<longrightarrow> api_parts (pathname ctx) = [normalizeString r]
            \<and> take 1 (fst (handleRequest h ctx))
                = [Require (cleanupString h (normalizeString r))])"
proof (intro conjI impI)
  from assms have "REGEX_API_test (normalizeString (toStringSafe (pathname ctx)))"
    by (simp only: toStringSafe_def option.case REGEX_API_prefix)
  then show eq: "handleRequest h ctx = handleApi h ctx \<lparr> code = 0, data = None, msg = None \<rparr>"
    by (simp add: handleRequest_def)
  assume c: "CHR ''/'' \<notin> set r \<and> CHR 0x5C \<notin> set r
          \<and> \<not> isEmptyString r \<and> \<not> isEmptyString (cleanupString h (normalizeString r))"
  from c have "CHR 0x5C \<notin> set (''/api'' @ r)" by simp
  then have "replaceAllStrings (''/api'' @ r) (CHR 0x5C) (CHR ''/'') = ''/api'' @ r"
    by (rule replace_no_backslash)
  with assms(2)
  have "normalizeString (replaceAllStrings (replaceAllStrings p (CHR 0x5C) (CHR ''/''))
                           Path_sep (CHR ''/'')) = ''/api'' @ r"
    by (simp only: replace_Path_sep normalizeString_replace)
  with assms(1) c show parts: "api_parts (pathname ctx) = [normalizeString r]"
    by (simp add: api_parts_def toStringSafe_def split_slash_no_slash)
  with c have "fst (select_method h ctx) = [Require (cleanupString h (normalizeString r))]"
    by (simp add: select_method_def Let_def)
  with handleApi_events [of h ctx "\<lparr> code = 0, data = None, msg = None \<rparr>"] eq
  show "take 1 (fst (handleRequest h ctx)) = [Require (cleanupString h (normalizeString r))]"
    by auto
qed

theorem api_prefix_routes_to_module_witness:
  "take 1 (fst (handleRequest example_host (example_context ''get'' ''/apifoo'')))
     = [Require ''foo'']"
proof -
  have p: "pathname (example_context ''get'' ''/apifoo'') = Some ''/apifoo''"
    by (simp add: example_context_def)
  have n: "normalizeString ''/apifoo'' = ''/api'' @ ''foo''"
    by (simp add: string_eval)
  have nn: "normalizeString ''foo'' = ''foo''"
    by (simp add: string_eval)
  have cl: "cleanupString example_host ''foo'' = ''foo''"
    by (simp add: example_host_def ascii_lower_def)
  have e: "\<not> isEmptyString ''foo''"
    by (simp add: string_eval)
  have c: "CHR ''/'' \<notin> set ''foo'' \<and> CHR 0x5C \<notin> set ''foo''
          \<and> \<not> isEmptyString ''foo''
          \<and> \<not> isEmptyString (cleanupString example_host (normalizeString ''foo''))"
    unfolding nn cl using e by simp
  from api_prefix_routes_to_module [OF p n, of example_host] c
  have "take 1 (fst (handleRequest example_host (example_context ''get'' ''/apifoo'')))
          = [Require (cleanupString example_host (normalizeString ''foo''))]"
    by blast
  then show ?thesis unfolding nn cl .
qed

section \<open>The file system handler\<close>

lemma rejected_path_not_found_without_io:
  assumes "request_fullPath w ac = Inr fullPath"
    and "toRelativePath w fullPath = None"
  shows "request_handler w ac = ([], Resolved (sendNotFound ac))
       \<and> status_of (sendResponse h ctx (sendNotFound ac) None) = Some 404"
  using assms
  by (simp add: request_handler_def notFound_def status_sendResponse sendNotFound_def)

text \<open>
  C1: in a workspace with the root \<open>root\<close>, whose relative-path check is the one
  modelled from the specification, when the path \<open>fullPath\<close> that the decoded segments
  of the request join to lies outside the root (the segments of the root are no prefix of
  its segments), the handler resolves at once with the context set to 404 and an empty
  trace: it calls neither the file system nor the visibility check nor the editor; the
  pipeline then answers 404.
\<close>

theorem outside_workspace_not_found_without_io:
  assumes "rootPath w = Some root"
    and "toRelativePath w = toRelativePath_in root"
    and "request_fullPath w ac = Inr fullPath"
    and "\<not> prefix (path_segments root) (path_segments fullPath)"
  shows "request_handler w ac = ([], Resolved (sendNotFound ac))
       \<and> status_of (sendResponse h ctx (sendNotFound ac) None) = Some 404"
proof -
  from assms(2,4) have "toRelativePath w fullPath = None"
    by (simp add: toRelativePath_in_def Let_def)
  with assms(3) show ?thesis by (rule rejected_path_not_found_without_io)
qed

theorem outside_workspace_not_found_without_io_witness:
  "request_fullPath example_workspace
       (new_apiCtx (example_context ''get'' ''/api/workspace/../../etc/passwd'') example_response)
     = Inr ''/etc/passwd''
 \<and> \<not> prefix (path_segments ''/ws'') (path_segments ''/etc/passwd'')
 \<and> request_handler example_workspace
       (new_apiCtx (example_context ''get'' ''/api/workspace/../../etc/passwd'') example_response)
     = ([], Resolved (sendNotFound
          (new_apiCtx (example_context ''get'' ''/api/workspace/../../etc/passwd'')
             example_response)))
 \<and> status_of (snd (handleApi example_host
       (example_context ''get'' ''/api/workspace/../../etc/passwd'') example_response))
     = Some 404"
proof -
  let ?ctx = "example_context ''get'' ''/api/workspace/../../etc/passwd''"
  let ?ac = "new_apiCtx ?ctx example_response"
  have r: "rootPath example_workspace = Some ''/ws''"
    and t: "toRelativePath example_workspace = toRelativePath_in ''/ws''"
    by (simp_all add: example_workspace_def)
  have p: "request_fullPath example_workspace ?ac = Inr ''/etc/passwd''"
    by (simp add: request_fullPath_def example_eval string_eval posix_eval new_apiCtx_def Let_def)
  have o: "\<not> prefix (path_segments ''/ws'') (path_segments ''/etc/passwd'')"
    by (simp add: posix_eval)
  have sel: "select_method example_host ?ctx
               = ([Require ''workspace''], Some (request_handler example_workspace))"
    by (simp add: dispatcher_eval example_eval string_eval workspace_module_def Let_def)
  note k = outside_workspace_not_found_without_io [OF r t p o, of example_host ?ctx]
  from k sel have "snd (handleApi example_host ?ctx example_response)
                     = sendResponse example_host ?ctx (sendNotFound ?ac) None"
    by (simp add: handleApi_def)
  with k p o show ?thesis by simp
qed

lemma nextItem_resolved_frame:
  "snd (nextItem w ac dir g ds fs items) = Resolved ac'
     \<Longrightarrow> headers ac' = headers ac \<and> statusCode ac' = statusCode ac"
proof (induction items arbitrary: g ds fs)
  case Nil
  then show ?case
    by (auto simp: completed_list_def split: option.splits if_splits)
next
  case (Cons i items)
  then show ?case
    by (auto simp: Let_def emit_def split: sum.splits option.splits if_splits prod.splits)
qed

lemma handleDirectory_resolved:
  assumes "snd (handleDirectory w ac dir) = Resolved ac'"
  shows "\<exists>hs. headers ac = Some hs
            \<and> headers ac' = Some (hs(HEADER_FILE_TYPE \<mapsto> ''directory''))
            \<and> statusCode ac' = statusCode ac"
  using assms
  by (auto simp: handleDirectory_def Let_def emit_def
           split: option.splits sum.splits prod.splits dest!: nextItem_resolved_frame)

lemma handleFile_resolved:
  assumes "snd (handleFile w ac f) = Resolved ac'"
  shows "(statusCode ac' = Some 405 \<and> headers ac' = None)
       \<or> (statusCode ac' = statusCode ac
          \<and> (\<exists>hs. headers ac' = Some hs \<and> hs HEADER_FILE_TYPE = Some ''file''))"
  using assms
  by (auto simp: handleFile_def Let_def setContent_def sendMethodNotAllowed_def
                 HEADER_FILE_TYPE_def
           split: option.splits sum.splits if_splits editor_result.splits)

lemma request_handler_cases:
  assumes "request_handler w ac0 = (evs, Resolved ac)"
    and "request_fullPath w ac0 = Inr fullPath"
  shows "ac = sendNotFound ac0 \<or> ac = sendMethodNotAllowed ac0
       \<or> (\<exists>st. fs_lstat w fullPath = Inr st \<and> stat_kind st = Directory
              \<and> snd (handleDirectory w ac0 fullPath) = Resolved ac)
       \<or> (\<exists>st. fs_lstat w fullPath = Inr st \<and> stat_kind st = RegularFile
              \<and> snd (handleFile w ac0 fullPath) = Resolved ac)"
  using assms
  by (auto simp: request_handler_def notFound_def methodNotAllowed_def emit_def Let_def
           split: option.splits sum.splits if_splits)

text \<open>
  C6, as stated, fails: \<open>sendNotFound\<close> and \<open>sendMethodNotAllowed\<close> delete the headers of
  the context, so the 404 for a path that does not exist and the 405 for a \<open>POST\<close> to a
  directory carry no type header.
\<close>

theorem type_header_missing_counterexample:
  "status_of (snd (requestListener example_host
                     (example_request ''GET'' ''/api/workspace/nope''))) = Some 404
 \<and> type_header (snd (requestListener example_host
                       (example_request ''GET'' ''/api/workspace/nope''))) = None
 \<and> status_of (snd (requestListener example_host
                     (example_request ''POST'' ''/api/workspace/A''))) = Some 405
 \<and> type_header (snd (requestListener example_host
                       (example_request ''POST'' ''/api/workspace/A''))) = None"
  by (simp add: dispatcher_eval handler_eval example_eval string_eval posix_eval status_of_def
        type_header_def Let_def)

text \<open>
  C6, amended: when the handler resolves for a fresh context with the status code still
  200 (a directory that was listed, a file that was read or opened), the response carries
  the type header, \<open>directory\<close> or \<open>file\<close> as \<open>lstat\<close> reported the path; when it
  resolves with another status code, that code is 404 or 405 and the response carries no
  type header.
\<close>

theorem type_header_on_success_only:
  assumes "request_handler w (new_apiCtx ctx resp) = (evs, Resolved ac)"
  shows "(statusCode ac = Some 200 \<longrightarrow>
            (\<exists>fullPath st. request_fullPath w (new_apiCtx ctx resp) = Inr fullPath
                \<and> fs_lstat w fullPath = Inr st \<and> stat_kind st \<noteq> Other
                \<and> type_header (sendResponse h ctx ac None)
                    = Some (if stat_kind st = Directory then ''directory'' else ''file'')))
       \<and> (statusCode ac \<noteq> Some 200 \<longrightarrow>
            (statusCode ac = Some 404 \<or> statusCode ac = Some 405)
            \<and> type_header (sendResponse h ctx ac None) = None)"
proof (cases "request_fullPath w (new_apiCtx ctx resp)")
  case (Inl e)
  with assms show ?thesis by (simp add: request_handler_def)
next
  case (Inr fullPath)
  note fp = Inr
  have st0: "statusCode (new_apiCtx ctx resp) = Some 200" by (simp add: new_apiCtx_def)
  have nf: "statusCode (sendNotFound (new_apiCtx ctx resp)) = Some 404
            \<and> headers (sendNotFound (new_apiCtx ctx resp)) = None"
    by (simp add: sendNotFound_def)
  have na: "statusCode (sendMethodNotAllowed (new_apiCtx ctx resp)) = Some 405
            \<and> headers (sendMethodNotAllowed (new_apiCtx ctx resp)) = None"
    by (simp add: sendMethodNotAllowed_def)
  from request_handler_cases [OF assms fp]
  consider (notfound) "ac = sendNotFound (new_apiCtx ctx resp)"
    | (notallowed) "ac = sendMethodNotAllowed (new_apiCtx ctx resp)"
    | (dir) st where "fs_lstat w fullPath = Inr st" "stat_kind st = Directory"
        "snd (handleDirectory w (new_apiCtx ctx resp) fullPath) = Resolved ac"
    | (regular) st where "fs_lstat w fullPath = Inr st" "stat_kind st = RegularFile"
        "snd (handleFile w (new_apiCtx ctx resp) fullPath) = Resolved ac"
    by blast
  then show ?thesis
  proof cases
    case notfound
    with nf show ?thesis by (simp add: type_header_sendResponse)
  next
    case notallowed
    with na show ?thesis by (simp add: type_header_sendResponse)
  next
    case dir
    from handleDirectory_resolved [OF dir(3)] st0 dir(1,2) fp show ?thesis
      by (auto simp: type_header_sendResponse)
  next
    case regular
    from handleFile_resolved [OF regular(3)] st0 regular(1,2) fp show ?thesis
      by (auto simp: type_header_sendResponse)
  qed
qed

theorem type_header_on_success_only_witness:
  "type_header (snd (handleApi example_host (example_context ''get'' ''/api/workspace/A'')
                       example_response)) = Some ''directory''
 \<and> type_header (snd (handleApi example_host (example_context ''get'' ''/api/workspace/nope'')
                       example_response)) = None"
proof -
  let ?w = example_workspace
  let ?cA = "example_context ''get'' ''/api/workspace/A''"
  let ?cN = "example_context ''get'' ''/api/workspace/nope''"
  obtain evA acA where
    rA: "request_handler ?w (new_apiCtx ?cA example_response) = (evA, Resolved acA)"
    and sA: "statusCode acA = Some 200"
    by (simp add: handler_eval example_eval string_eval posix_eval new_apiCtx_def Let_def)
  obtain evN acN where
    rN: "request_handler ?w (new_apiCtx ?cN example_response) = (evN, Resolved acN)"
    and sN: "statusCode acN \<noteq> Some 200"
    by (simp add: handler_eval example_eval string_eval posix_eval new_apiCtx_def Let_def
          sendNotFound_def)
  have fA: "request_fullPath ?w (new_apiCtx ?cA example_response) = Inr ''/ws/A''"
    by (simp add: request_fullPath_def example_eval string_eval posix_eval new_apiCtx_def Let_def)
  have lA: "fs_lstat ?w ''/ws/A'' = Inr (example_stats Directory)"
    by (simp add: example_workspace_def)
  have selA: "select_method example_host ?cA
                = ([Require ''workspace''], Some (request_handler ?w))"
    by (simp add: select_method_def api_parts_def example_eval string_eval workspace_module_def
          Let_def)
  have selN: "select_method example_host ?cN
                = ([Require ''workspace''], Some (request_handler ?w))"
    by (simp add: select_method_def api_parts_def example_eval string_eval workspace_module_def
          Let_def)
  have hA: "snd (handleApi example_host ?cA example_response)
              = sendResponse example_host ?cA acA None"
    by (simp add: handleApi_def selA rA)
  have hN: "snd (handleApi example_host ?cN example_response)
              = sendResponse example_host ?cN acN None"
    by (simp add: handleApi_def selN rN)
  from type_header_on_success_only [OF rA, of example_host] sA fA lA
  have "type_header (sendResponse example_host ?cA acA None) = Some ''directory''"
    by (auto simp: example_stats_def)
  moreover from type_header_on_success_only [OF rN, of example_host] sN
  have "type_header (sendResponse example_host ?cN acN None) = None"
    by blast
  ultimately show ?thesis by (simp add: hA hN)
qed

section \<open>The context that the pipeline consumes\<close>

lemma find_method_workspace:
  "find_method (workspace_module w) m = Some f \<Longrightarrow> f = request_handler w"
  by (auto simp: workspace_module_def split: if_splits)

lemma select_method_cases:
  assumes "\<forall>n md. require h n = Some md \<longrightarrow> md = workspace_module w"
    and "select_method h ctx = (evs, Some f)"
  shows "f = root_method h ctx \<or> f = method_not_allowed \<or> f = request_handler w"
  using assms
  by (auto simp: select_method_def Let_def split: list.splits if_splits option.splits
           dest!: find_method_workspace)

lemma nextItem_resolved_fields:
  "snd (nextItem w ac dir g ds fs items) = Resolved ac'
     \<Longrightarrow> content ac' = content ac \<and> response ac' \<noteq> None"
proof (induction items arbitrary: g ds fs)
  case Nil
  then show ?case
    by (auto simp: completed_list_def split: option.splits if_splits)
next
  case (Cons i items)
  then show ?case
    by (auto simp: Let_def emit_def split: sum.splits option.splits if_splits prod.splits)
qed

lemma nextItem_not_returned: "snd (nextItem w ac dir g ds fs items) \<noteq> Returned x"
proof (induction items arbitrary: g ds fs)
  case Nil
  then show ?case
    by (auto simp: completed_list_def split: option.splits if_splits)
next
  case (Cons i items)
  then show ?case
    by (auto simp: Let_def emit_def split: sum.splits option.splits if_splits prod.splits)
qed

lemma handleDirectory_fields:
  assumes "snd (handleDirectory w ac dir) = Resolved ac'"
  shows "content ac' = content ac \<and> response ac' \<noteq> None \<and> statusCode ac' = statusCode ac"
proof -
  from assms obtain hs items where
    n: "snd (nextItem w (ac\<lparr> headers := Some (hs(HEADER_FILE_TYPE \<mapsto> ''directory'')) \<rparr>)
            dir False [] [] items) = Resolved ac'"
    by (auto simp: handleDirectory_def Let_def emit_def split: option.splits sum.splits)
  from nextItem_resolved_fields [OF n] nextItem_resolved_frame [OF n] show ?thesis by simp
qed

lemma handleDirectory_not_returned: "snd (handleDirectory w ac dir) \<noteq> Returned x"
  by (auto simp: handleDirectory_def Let_def emit_def nextItem_not_returned
           split: option.splits sum.splits prod.splits)

lemma handleFile_fields:
  assumes "snd (handleFile w ac f) = Resolved ac'"
    and "content ac = None" and "response ac \<noteq> None"
  shows "(statusCode ac' = Some 405 \<and> content ac' = None \<and> response ac' = None)
       \<or> (statusCode ac' = statusCode ac
          \<and> (content ac' \<noteq> None) \<noteq> (response ac' \<noteq> None))"
  using assms
  by (auto simp: handleFile_def Let_def setContent_def sendMethodNotAllowed_def
           split: option.splits sum.splits if_splits editor_result.splits)

lemma handleFile_not_returned: "snd (handleFile w ac f) \<noteq> Returned x"
  by (auto simp: handleFile_def Let_def
           split: option.splits sum.splits if_splits editor_result.splits)

lemma request_handler_not_returned: "snd (request_handler w ac) \<noteq> Returned x"
  by (auto simp: request_handler_def notFound_def methodNotAllowed_def emit_def Let_def
                 handleDirectory_not_returned handleFile_not_returned
           split: option.splits sum.splits if_splits prod.splits)

lemma request_handler_fields:
  assumes "request_handler w (new_apiCtx ctx resp) = (evs, Resolved ac)"
  shows "(statusCode ac = Some 200 \<and> (content ac \<noteq> None) \<noteq> (response ac \<noteq> None))
       \<or> ((statusCode ac = Some 404 \<or> statusCode ac = Some 405)
          \<and> content ac = None \<and> response ac = None)"
proof (cases "request_fullPath w (new_apiCtx ctx resp)")
  case (Inl e)
  with assms show ?thesis by (simp add: request_handler_def)
next
  case (Inr fullPath)
  have new: "statusCode (new_apiCtx ctx resp) = Some 200" "content (new_apiCtx ctx resp) = None"
    "response (new_apiCtx ctx resp) \<noteq> None"
    by (simp_all add: new_apiCtx_def)
  from request_handler_cases [OF assms Inr]
  consider (notfound) "ac = sendNotFound (new_apiCtx ctx resp)"
    | (notallowed) "ac = sendMethodNotAllowed (new_apiCtx ctx resp)"
    | (dir) "snd (handleDirectory w (new_apiCtx ctx resp) fullPath) = Resolved ac"
    | (regular) "snd (handleFile w (new_apiCtx ctx resp) fullPath) = Resolved ac"
    by blast
  then show ?thesis
  proof cases
    case notfound
    then show ?thesis by (simp add: sendNotFound_def new_apiCtx_def)
  next
    case notallowed
    then show ?thesis by (simp add: sendMethodNotAllowed_def new_apiCtx_def)
  next
    case dir
    from handleDirectory_fields [OF dir] new show ?thesis by simp
  next
    case regular
    from handleFile_fields [OF regular new(2,3)] new(1) show ?thesis by auto
  qed
qed

text \<open>
  C5, as stated, fails: \<open>sendNotFound\<close> (and \<open>sendMethodNotAllowed\<close>) deletes the response
  and sets no content, so the context that the pipeline consumes after a 404 of the file
  system handler has neither of the two.
\<close>

theorem exactly_one_populated_counterexample:
  "\<not> exactly_one_populated
       (sendNotFound (new_apiCtx (example_context ''get'' ''/api/workspace/nope'') example_response))"
  by (simp add: exactly_one_populated_def sendNotFound_def new_apiCtx_def)

text \<open>
  That content and response are not both populated is a property of the handlers, not of
  the pipeline: the context of the careless module above reaches \<open>sendResponse\<close> with
  both.
\<close>

lemma careless_handler_both_populated:
  "handleApi careless_host (example_context ''get'' ''/api/workspace'') example_response
     = ([Require ''workspace''],
        sendResponse careless_host (example_context ''get'' ''/api/workspace'')
          ((new_apiCtx (example_context ''get'' ''/api/workspace'') example_response)
             \<lparr> content := Some ''text'' \<rparr>) None)
 \<and> both_populated ((new_apiCtx (example_context ''get'' ''/api/workspace'') example_response)
                     \<lparr> content := Some ''text'' \<rparr>)"
  by (simp add: careless_host_def careless_module_def dispatcher_eval example_eval string_eval
        both_populated_def new_apiCtx_def Let_def)

text \<open>
  C5, amended, for a host whose modules are the module \<open>workspace\<close> of the sources: the
  context that \<open>handleApi\<close> hands to \<open>sendResponse\<close> after the handler it chose (the
  root resource, the responder for a method that is not allowed, or the file system
  handler) has returned or resolved never has content and response both populated; it
  has exactly one of them when its status code is 200; otherwise its status code is 404
  or 405 and it has neither. \<open>setContent\<close> sets the content and deletes the response;
  \<open>sendNotFound\<close> and \<open>sendMethodNotAllowed\<close> delete the response and leave the content
  as it is.
\<close>

theorem pipeline_context_at_most_one:
  assumes "\<forall>n md. require h n = Some md \<longrightarrow> md = workspace_module w"
    and "select_method h ctx = (evs, Some f)"
    and "f (new_apiCtx ctx resp) = (evs', c)"
    and "c = Returned ac \<or> c = Resolved ac"
  shows "handleApi h ctx resp = (evs @ evs', sendResponse h ctx ac None)
       \<and> \<not> both_populated ac
       \<and> (statusCode ac = Some 200 \<longrightarrow> exactly_one_populated ac)
       \<and> (statusCode ac \<noteq> Some 200 \<longrightarrow>
            (statusCode ac = Some 404 \<or> statusCode ac = Some 405)
            \<and> content ac = None \<and> response ac = None)
       \<and> response (setContent newContent mime a) = None
       \<and> content (setContent newContent mime a) = newContent
       \<and> response (sendNotFound a) = None \<and> content (sendNotFound a) = content a
       \<and> response (sendMethodNotAllowed a) = None
       \<and> content (sendMethodNotAllowed a) = content a"
proof -
  from assms(2,3,4)
  have api: "handleApi h ctx resp = (evs @ evs', sendResponse h ctx ac None)"
    by (auto simp: handleApi_def)
  have fields: "(statusCode ac = Some 200 \<and> (content ac \<noteq> None) \<noteq> (response ac \<noteq> None))
       \<or> ((statusCode ac = Some 404 \<or> statusCode ac = Some 405)
          \<and> content ac = None \<and> response ac = None)"
  proof -
    from select_method_cases [OF assms(1,2)]
    consider (root) "f = root_method h ctx" | (notallowed) "f = method_not_allowed"
      | (workspace) "f = request_handler w"
      by blast
    then show ?thesis
    proof cases
      case root
      with assms(3,4) show ?thesis
        by (auto simp: root_method_def new_apiCtx_def split: option.splits)
    next
      case notallowed
      with assms(3,4) show ?thesis
        by (auto simp: method_not_allowed_def sendMethodNotAllowed_def new_apiCtx_def)
    next
      case workspace
      with assms(3) request_handler_not_returned [of w "new_apiCtx ctx resp" ac]
      have "c \<noteq> Returned ac" by auto
      with assms(3,4) workspace
      have "request_handler w (new_apiCtx ctx resp) = (evs', Resolved ac)" by simp
      then show ?thesis by (rule request_handler_fields)
    qed
  qed
  have ops: "response (setContent newContent mime a) = None
       \<and> content (setContent newContent mime a) = newContent
       \<and> response (sendNotFound a) = None \<and> content (sendNotFound a) = content a
       \<and> response (sendMethodNotAllowed a) = None
       \<and> content (sendMethodNotAllowed a) = content a"
    by (simp add: setContent_def Let_def sendNotFound_def sendMethodNotAllowed_def)
  from fields have "\<not> both_populated ac
       \<and> (statusCode ac = Some 200 \<longrightarrow> exactly_one_populated ac)
       \<and> (statusCode ac \<noteq> Some 200 \<longrightarrow>
            (statusCode ac = Some 404 \<or> statusCode ac = Some 405)
            \<and> content ac = None \<and> response ac = None)"
    by (auto simp: both_populated_def exactly_one_populated_def)
  with api ops show ?thesis by simp
qed

theorem pipeline_context_at_most_one_witness:
  "(\<exists>ac. handleApi example_host (example_context ''get'' ''/api/workspace/a.txt'') example_response
           = ([Require ''workspace'', FsExists ''/ws/a.txt'', FsLstat ''/ws/a.txt'',
               IsFileVisible ''/ws/a.txt'', FsReadFile ''/ws/a.txt''],
              sendResponse example_host (example_context ''get'' ''/api/workspace/a.txt'') ac None)
        \<and> content ac = Some ''hello'' \<and> response ac = None \<and> statusCode ac = Some 200
        \<and> exactly_one_populated ac)
 \<and> (\<exists>ac. handleApi example_host (example_context ''get'' ''/api/workspace/nope'') example_response
           = ([Require ''workspace'', FsExists ''/ws/nope''],
              sendResponse example_host (example_context ''get'' ''/api/workspace/nope'') ac None)
        \<and> content ac = None \<and> response ac = None \<and> statusCode ac = Some 404)"
proof -
  let ?ctx = "example_context ''get'' ''/api/workspace/a.txt''"
  let ?cN = "example_context ''get'' ''/api/workspace/nope''"
  have mods: "\<forall>n md. require example_host n = Some md \<longrightarrow> md = workspace_module example_workspace"
    by (simp add: example_host_def)
  have sel: "select_method example_host ?ctx
               = ([Require ''workspace''], Some (request_handler example_workspace))"
    by (simp add: dispatcher_eval example_eval string_eval workspace_module_def Let_def)
  have selN: "select_method example_host ?cN
               = ([Require ''workspace''], Some (request_handler example_workspace))"
    by (simp add: dispatcher_eval example_eval string_eval workspace_module_def Let_def)
  obtain ac where run: "request_handler example_workspace (new_apiCtx ?ctx example_response)
        = ([FsExists ''/ws/a.txt'', FsLstat ''/ws/a.txt'', IsFileVisible ''/ws/a.txt'',
            FsReadFile ''/ws/a.txt''], Resolved ac)"
    and f: "content ac = Some ''hello''" "response ac = None" "statusCode ac = Some 200"
    by (simp add: handler_eval example_eval string_eval posix_eval new_apiCtx_def Let_def
          setContent_def)
  obtain acN where runN: "request_handler example_workspace (new_apiCtx ?cN example_response)
        = ([FsExists ''/ws/nope''], Resolved acN)"
    and fN: "statusCode acN = Some 404"
    by (simp add: handler_eval example_eval string_eval posix_eval new_apiCtx_def Let_def
          sendNotFound_def)
  have c: "Resolved ac = Returned ac \<or> Resolved ac = Resolved ac" by simp
  have cN: "Resolved acN = Returned acN \<or> Resolved acN = Resolved acN" by simp
  from pipeline_context_at_most_one [OF mods sel run c] f
  have a: "\<exists>ac. handleApi example_host ?ctx example_response
           = ([Require ''workspace'', FsExists ''/ws/a.txt'', FsLstat ''/ws/a.txt'',
               IsFileVisible ''/ws/a.txt'', FsReadFile ''/ws/a.txt''],
              sendResponse example_host ?ctx ac None)
        \<and> content ac = Some ''hello'' \<and> response ac = None \<and> statusCode ac = Some 200
        \<and> exactly_one_populated ac"
    by (intro exI [of _ ac]) simp
  from pipeline_context_at_most_one [OF mods selN runN cN] fN
  have b: "\<exists>ac. handleApi example_host ?cN example_response
           = ([Require ''workspace'', FsExists ''/ws/nope''],
              sendResponse example_host ?cN ac None)
        \<and> content ac = None \<and> response ac = None \<and> statusCode ac = Some 404"
    by (intro exI [of _ acN]) simp
  from a b show ?thesis by (rule conjI)
qed

section \<open>The order and the filter of a listing\<close>

lemma insert_by_equal: "(\<And>y. cmp x y = 0) \<Longrightarrow> insert_by cmp x ys = ys @ [x]"
  by (induction ys) auto

lemma foldl_insert_equal:
  "(\<And>x y. cmp x y = 0) \<Longrightarrow> foldl (\<lambda>acc x. insert_by cmp x acc) acc xs = acc @ xs"
  by (induction xs arbitrary: acc) (auto simp: insert_by_equal)

text \<open>The two sorts of \<open>completed\<close> change nothing: every two items compare equal.\<close>

lemma array_sort_compare_items: "array_sort compare_items xs = xs"
  by (simp add: array_sort_def foldl_insert_equal compare_items_def object_toString_def
        compareValues_def)

text \<open>
  C4 holds of the filtering but not of the order, and the code is at fault: the comparison
  function of \<open>completed\<close> normalises the items instead of their names, so the files of
  the example workspace, which the directory yields as \<open>b.txt\<close>, \<open>a.txt\<close>, are listed in
  that order.
\<close>

theorem listing_files_unsorted:
  "map_option (\<lambda>l. map entry_name (files l))
     (listing_of (snd (requestListener example_host (example_request ''GET'' ''/api/workspace''))))
   = Some [''b.txt'', ''a.txt'']"
  by (simp add: dispatcher_eval handler_eval example_eval string_eval posix_eval body_of_def
        listing_of_def Let_def)

lemma nextItem_files_visible:
  assumes "snd (nextItem w ac dir g ds fs items) = Resolved ac'"
  shows "\<exists>r l fs'. response ac' = Some r \<and> data r = Some (Listing l)
           \<and> files l = map (file_entry w (toRelativePath w dir)) fs'
           \<and> (\<forall>x\<in>set fs'. x \<in> set fs
                 \<or> (\<exists>u st. user (request ac) = Some u \<and> item_name x \<in> set items
                       \<and> fs_lstat w (path_join w dir (item_name x)) = Inr st
                       \<and> stat_kind st = RegularFile
                       \<and> isFileVisible u (path_join w dir (item_name x)) = Inr True))"
  using assms
proof (induction items arbitrary: g ds fs)
  case Nil
  then show ?case
    by (auto simp: completed_list_def build_list_def Let_def array_sort_compare_items
             split: option.splits if_splits)
next
  case (Cons i items)
  show ?case
  proof (cases "fs_lstat w (path_join w dir i)")
    case (Inl e)
    with Cons.prems show ?thesis by (simp add: Let_def)
  next
    case (Inr st)
    show ?thesis
    proof (cases "stat_kind st")
      case Directory
      with Inr Cons.prems obtain ds' where
        "snd (nextItem w ac dir False ds' fs items) = Resolved ac'"
        by (auto simp: Let_def emit_def split: if_splits)
      from Cons.IH [OF this] show ?thesis by fastforce
    next
      case Other
      with Inr Cons.prems have
        "snd (nextItem w ac dir False ds fs items) = Resolved ac'"
        by (auto simp: Let_def emit_def)
      from Cons.IH [OF this] show ?thesis by fastforce
    next
      case RegularFile
      let ?item = "\<lparr> item_birthtime = stat_birthtime st, item_ctime = stat_ctime st,
                     item_fullPath = path_join w dir i, item_mtime = stat_mtime st,
                     item_name = i, item_mime = detectMimeByFilename w i,
                     item_size = stat_size st \<rparr>"
      from RegularFile Inr Cons.prems obtain u v where u: "user (request ac) = Some u"
        and v: "isFileVisible u (path_join w dir i) = Inr v"
        and n: "snd (nextItem w ac dir True ds (if v then fs @ [?item] else fs) items)
                  = Resolved ac'"
        by (auto simp: Let_def emit_def split: option.splits sum.splits)
      from Cons.IH [OF n] obtain r l fs' where
        rl: "response ac' = Some r" "data r = Some (Listing l)"
            "files l = map (file_entry w (toRelativePath w dir)) fs'"
        and al: "\<forall>x\<in>set fs'. x \<in> set (if v then fs @ [?item] else fs)
                 \<or> (\<exists>u st. user (request ac) = Some u \<and> item_name x \<in> set items
                       \<and> fs_lstat w (path_join w dir (item_name x)) = Inr st
                       \<and> stat_kind st = RegularFile
                       \<and> isFileVisible u (path_join w dir (item_name x)) = Inr True)"
        by blast
      have "\<forall>x\<in>set fs'. x \<in> set fs
                 \<or> (\<exists>u st. user (request ac) = Some u \<and> item_name x \<in> set (i # items)
                       \<and> fs_lstat w (path_join w dir (item_name x)) = Inr st
                       \<and> stat_kind st = RegularFile
                       \<and> isFileVisible u (path_join w dir (item_name x)) = Inr True)"
      proof
        fix x assume "x \<in> set fs'"
        with al u v Inr RegularFile show "x \<in> set fs
                 \<or> (\<exists>u st. user (request ac) = Some u \<and> item_name x \<in> set (i # items)
                       \<and> fs_lstat w (path_join w dir (item_name x)) = Inr st
                       \<and> stat_kind st = RegularFile
                       \<and> isFileVisible u (path_join w dir (item_name x)) = Inr True)"
          by (cases v) (fastforce split: if_splits)+
      qed
      with rl show ?thesis by blast
    qed
  qed
qed

text \<open>
  The filtering of a listing: every entry of \<open>files\<close> in a listing that succeeds is a
  child that \<open>readdir\<close> returned, that \<open>lstat\<close> reported as a regular file, and for which
  the visibility check of the user resolved to true.
\<close>

theorem listed_files_are_visible:
  assumes "snd (handleDirectory w ac dir) = Resolved ac'"
  shows "\<exists>r l items. response ac' = Some r \<and> data r = Some (Listing l)
           \<and> fs_readdir w dir = Inr items
           \<and> (\<forall>e\<in>set (files l). \<exists>u st. user (request ac) = Some u
                 \<and> entry_name e \<in> set items
                 \<and> fs_lstat w (path_join w dir (entry_name e)) = Inr st
                 \<and> stat_kind st = RegularFile
                 \<and> isFileVisible u (path_join w dir (entry_name e)) = Inr True)"
proof -
  from assms obtain hs items where rd: "fs_readdir w dir = Inr items"
    and n: "snd (nextItem w (ac\<lparr> headers := Some (hs(HEADER_FILE_TYPE \<mapsto> ''directory'')) \<rparr>)
                   dir False [] [] items) = Resolved ac'"
    by (auto simp: handleDirectory_def Let_def emit_def split: option.splits sum.splits)
  from nextItem_files_visible [OF n] obtain r l fs' where
    rl: "response ac' = Some r" "data r = Some (Listing l)"
        "files l = map (file_entry w (toRelativePath w dir)) fs'"
    and al: "\<forall>x\<in>set fs'. \<exists>u st. user (request ac) = Some u \<and> item_name x \<in> set items
                       \<and> fs_lstat w (path_join w dir (item_name x)) = Inr st
                       \<and> stat_kind st = RegularFile
                       \<and> isFileVisible u (path_join w dir (item_name x)) = Inr True"
    by auto
  have "\<forall>e\<in>set (files l). \<exists>u st. user (request ac) = Some u
                 \<and> entry_name e \<in> set items
                 \<and> fs_lstat w (path_join w dir (entry_name e)) = Inr st
                 \<and> stat_kind st = RegularFile
                 \<and> isFileVisible u (path_join w dir (entry_name e)) = Inr True"
    using al by (auto simp: rl(3) file_entry_def)
  with rl(1,2) rd show ?thesis by blast
qed

theorem listed_files_are_visible_witness:
  "\<exists>ac'. snd (handleDirectory example_workspace (new_apiCtx selective_context example_response)
                 ''/ws'') = Resolved ac'
        \<and> (\<exists>r l. response ac' = Some r \<and> data r = Some (Listing l)
               \<and> (\<forall>e\<in>set (files l). entry_name e \<noteq> ''b.txt''))"
proof -
  let ?ac = "new_apiCtx selective_context example_response"
  let ?w = example_workspace
  obtain ac' where h: "snd (handleDirectory ?w ?ac ''/ws'') = Resolved ac'"
    by (simp add: handler_eval example_eval string_eval posix_eval new_apiCtx_def Let_def
          selective_context_def selective_user_def)
  from listed_files_are_visible [OF h] obtain r l items where
    rl: "response ac' = Some r" "data r = Some (Listing l)"
    and v: "\<forall>e\<in>set (files l). \<exists>u st. user (request ?ac) = Some u
                 \<and> entry_name e \<in> set items
                 \<and> fs_lstat ?w (path_join ?w ''/ws'' (entry_name e)) = Inr st
                 \<and> stat_kind st = RegularFile
                 \<and> isFileVisible u (path_join ?w ''/ws'' (entry_name e)) = Inr True"
    by (elim exE conjE)
  have u: "user (request ?ac) = Some selective_user"
    by (simp add: new_apiCtx_def selective_context_def)
  have j: "path_join ?w ''/ws'' ''b.txt'' = ''/ws/b.txt''"
    by (simp add: example_workspace_def posix_eval)
  have "\<forall>e\<in>set (files l). entry_name e \<noteq> ''b.txt''"
  proof
    fix e assume "e \<in> set (files l)"
    with v u have "isFileVisible selective_user (path_join ?w ''/ws'' (entry_name e)) = Inr True"
      by fastforce
    then have "path_join ?w ''/ws'' (entry_name e) \<noteq> ''/ws/b.txt''"
      by (simp add: selective_user_def)
    with j show "entry_name e \<noteq> ''b.txt''" by auto
  qed
  with rl h show ?thesis
    by (intro exI [of _ ac'] exI [of _ r] exI [of _ l] conjI)
qed

section \<open>The functions of a POSIX workspace\<close>

lemma posix_join_examples:
  "posix_join ''/ws'' ''A/'' = ''/ws/A/''"
  "posix_join ''/ws'' [] = ''/ws''"
  "posix_join ''/ws'' ''../../etc/passwd'' = ''/etc/passwd''"
  "posix_join ''ws'' ''../../x'' = ''../x''"
  "posix_resolve ''/home'' ''ws/A/'' = ''/home/ws/A''"
  "posix_parent ''/home'' ''/ws/A/'' = ''/ws''"
  by (simp_all add: posix_eval)

lemma byte_char_char_of: "byte_char n = char_of n"
  by (simp add: byte_char_def char_of_def bit_iff_odd)

lemma uri_roundtrip: "uri_decode (uri_encode (''a b/'' @ [CHR 0x5C, CHR 0xC3, CHR 0xA9])) = Some (''a b/'' @ [CHR 0x5C, CHR 0xC3, CHR 0xA9])"
  by (simp add: posix_eval string_eval)

lemma uri_decode_examples:
  "uri_decode ''a%2Fb'' = Some ''a/b''"
  "uri_decode ''%C3%A9'' = Some [CHR 0xC3, CHR 0xA9]"
  "uri_decode ''%E9'' = None"
  "uri_decode ''%zz'' = None"
  "uri_decode ''%4'' = None"
  "uri_decode ''%ED%A0%80'' = None"
  "uri_decode ''%E2%82%AC'' = Some [CHR 0xE2, CHR 0x82, CHR 0xAC]"
  by (simp_all add: posix_eval)

section \<open>The parent link in a POSIX workspace\<close>

lemma split_slash_not_Nil [simp]: "split_slash s \<noteq> []"
  by (induction s) (auto split: list.splits)

lemma split_slash_sep:
  "split_slash (p @ CHR ''/'' # t) = split_slash p @ split_slash t"
  by (induction p) (auto split: list.splits)

lemma split_slash_no_sep: "\<forall>s\<in>set (split_slash p). CHR ''/'' \<notin> set s"
  by (induction p) (auto split: list.splits)

lemma norm_step_proper:
  "\<forall>s\<in>set acc. proper_segment s \<Longrightarrow> CHR ''/'' \<notin> set x
     \<Longrightarrow> \<forall>s\<in>set (norm_step False acc x). proper_segment s"
  by (auto simp: norm_step_def proper_segment_def dest: in_set_butlastD)

lemma foldl_norm_step_proper:
  "\<forall>s\<in>set acc. proper_segment s \<Longrightarrow> \<forall>x\<in>set xs. CHR ''/'' \<notin> set x
     \<Longrightarrow> \<forall>s\<in>set (foldl (norm_step False) acc xs). proper_segment s"
proof (induction xs arbitrary: acc)
  case Nil
  then show ?case by simp
next
  case (Cons x xs)
  from Cons.prems have "\<forall>s\<in>set (norm_step False acc x). proper_segment s"
    by (intro norm_step_proper) auto
  with Cons.prems show ?case by (simp add: Cons.IH)
qed

lemma path_segments_proper: "\<forall>s\<in>set (path_segments p). proper_segment s"
  unfolding path_segments_def
  by (rule foldl_norm_step_proper) (simp_all add: split_slash_no_sep)

lemma path_segments_parent: "path_segments (p @ ''/..'') = butlast (path_segments p)"
proof -
  have "split_slash (p @ ''/..'') = split_slash p @ [''..'']"
    using split_slash_sep [of p "''..''"] by simp
  moreover have "path_segments p \<noteq> [] \<Longrightarrow> last (path_segments p) \<noteq> ''..''"
    using path_segments_proper [of p] by (auto simp: proper_segment_def dest!: last_in_set)
  ultimately show ?thesis
    by (cases "path_segments p = []") (simp_all add: path_segments_def norm_step_def)
qed

lemma split_slash_segments:
  "CHR ''/'' \<notin> set s \<Longrightarrow> \<forall>t\<in>set segs. CHR ''/'' \<notin> set t
     \<Longrightarrow> split_slash (s @ render_segments segs) = s # segs"
proof (induction segs arbitrary: s)
  case Nil
  then show ?case by (simp add: render_segments_def split_slash_no_slash)
next
  case (Cons t ts)
  from Cons.prems have "split_slash (t @ render_segments ts) = t # ts"
    by (intro Cons.IH) auto
  with Cons.prems show ?case
    by (simp add: render_segments_def split_slash_append)
qed

lemma split_slash_render:
  "\<forall>t\<in>set segs. CHR ''/'' \<notin> set t \<Longrightarrow> split_slash (render_segments segs) = [] # segs"
  using split_slash_segments [of "[]" segs] by simp

lemma foldl_norm_step_clean:
  "\<forall>s\<in>set xs. proper_segment s \<Longrightarrow> foldl (norm_step b) acc xs = acc @ xs"
  by (induction xs arbitrary: acc) (auto simp: norm_step_def proper_segment_def)

lemma path_segments_render:
  assumes "\<forall>s\<in>set xs. proper_segment s"
  shows "path_segments (render_segments xs) = xs"
proof -
  from assms have "\<forall>t\<in>set xs. CHR ''/'' \<notin> set t" by (simp add: proper_segment_def)
  then have "split_slash (render_segments xs) = [] # xs" by (rule split_slash_render)
  with assms show ?thesis
    by (simp add: path_segments_def foldl_norm_step_clean norm_step_def)
qed

lemma path_segments_absolute:
  assumes "\<forall>s\<in>set xs. proper_segment s"
  shows "path_segments (absolute_path xs) = xs"
proof (cases "xs = []")
  case True
  then show ?thesis by (simp add: absolute_path_def path_segments_def norm_step_def)
next
  case False
  with assms show ?thesis by (simp add: absolute_path_def path_segments_render)
qed

lemma render_segments_Nil [simp]: "(render_segments xs = []) = (xs = [])"
  by (cases xs) (auto simp: render_segments_def)

lemma render_segments_empty [simp]: "render_segments [] = []"
  by (simp add: render_segments_def)

lemma absolute_path_inject:
  assumes "\<forall>s\<in>set xs. proper_segment s" and "\<forall>s\<in>set ys. proper_segment s"
    and "absolute_path xs = absolute_path ys"
  shows "xs = ys"
proof -
  from assms(3) have "path_segments (absolute_path xs) = path_segments (absolute_path ys)"
    by simp
  with assms(1,2) show ?thesis by (simp add: path_segments_absolute)
qed

lemma butlast_neq:
  assumes "xs \<noteq> []"
  shows "butlast xs \<noteq> xs"
proof
  assume "butlast xs = xs"
  then have "length xs - 1 = length xs" by (metis length_butlast)
  with assms show False by (cases xs) auto
qed

lemma proper_butlast:
  "\<forall>s\<in>set xs. proper_segment s \<Longrightarrow> \<forall>s\<in>set (butlast xs). proper_segment s"
  by (auto dest: in_set_butlastD)

lemma render_no_backslash:
  "\<forall>s\<in>set xs. CHR 0x5C \<notin> set s \<Longrightarrow> CHR 0x5C \<notin> set (render_segments xs)"
  by (induction xs) (auto simp: render_segments_def)

lemma from_cwd_absolute: "take 1 p = ''/'' \<Longrightarrow> from_cwd cwd p = p"
  by (simp add: from_cwd_def)

lemma parent_link_posix:
  assumes pp: "path_parent w = posix_parent cwd"
    and pr: "path_resolve w = posix_resolve cwd"
    and rel: "toRelativePath w = toRelativePath_in root"
    and segs: "path_segments (from_cwd cwd dir) = path_segments root @ ds"
  shows "(parent_link w dir = None) = (ds = [])
       \<and> ((\<forall>s\<in>set (butlast ds). CHR 0x5C \<notin> set s) \<longrightarrow>
            parent_link w dir =
              (if ds = [] then None
               else Some (API_WORKSPACE @
                      join_slash (map (encodeURIComponent w) ([] # butlast ds)))))"
proof -
  let ?rs = "path_segments root"
  have crs: "\<forall>s\<in>set ?rs. proper_segment s" by (rule path_segments_proper)
  have call: "\<forall>s\<in>set (?rs @ ds). proper_segment s"
    using path_segments_proper [of "from_cwd cwd dir"] by (simp only: segs)
  then have cds: "\<forall>s\<in>set ds. proper_segment s" by auto
  from call have cb: "\<forall>s\<in>set (butlast (?rs @ ds)). proper_segment s" by (rule proper_butlast)
  have par: "path_parent w dir = absolute_path (butlast (?rs @ ds))"
    by (simp only: pp posix_parent_def path_segments_parent segs)
  have res: "path_resolve w dir = absolute_path (?rs @ ds)"
    by (simp only: pr posix_resolve_def segs)
  have relp: "toRelativePath w (absolute_path (butlast (?rs @ ds))) =
                (if prefix ?rs (butlast (?rs @ ds))
                 then Some (render_segments (drop (length ?rs) (butlast (?rs @ ds)))) else None)"
    using cb by (simp add: rel toRelativePath_in_def path_segments_absolute Let_def)
  show ?thesis
  proof (cases "ds = []")
    case True
    show ?thesis
    proof (cases "?rs = []")
      case True
      with \<open>ds = []\<close> par res relp show ?thesis
        by (simp add: parent_link_def Let_def)
    next
      case False
      then have "length (butlast ?rs) < length ?rs" by simp
      then have "\<not> prefix ?rs (butlast ?rs)"
        by (auto dest: prefix_length_le)
      with \<open>ds = []\<close> par relp show ?thesis
        by (simp add: parent_link_def Let_def)
    qed
  next
    case False
    then have bl: "butlast (?rs @ ds) = ?rs @ butlast ds" by (simp add: butlast_append)
    from cds have cbd: "\<forall>s\<in>set (butlast ds). proper_segment s" by (rule proper_butlast)
    from False have "butlast (?rs @ ds) \<noteq> ?rs @ ds" by (simp add: butlast_neq)
    with call cb have ne: "absolute_path (butlast (?rs @ ds)) \<noteq> absolute_path (?rs @ ds)"
      by (blast dest: absolute_path_inject)
    from cbd have sp: "split_slash (render_segments (butlast ds)) = [] # butlast ds"
      by (intro split_slash_render) (auto simp: proper_segment_def)
    have some: "parent_link w dir \<noteq> None"
      using False ne par res relp by (simp add: parent_link_def bl Let_def)
    have val: "parent_link w dir =
                 Some (API_WORKSPACE @ join_slash (map (encodeURIComponent w) ([] # butlast ds)))"
      if nbs: "\<forall>s\<in>set (butlast ds). CHR 0x5C \<notin> set s"
    proof -
      from nbs have nb: "CHR 0x5C \<notin> set (render_segments (butlast ds))"
        by (rule render_no_backslash)
      from False ne par res relp show ?thesis
        by (simp add: parent_link_def bl Let_def normalizePath_def
              replace_no_backslash [OF nb] sp)
    qed
    from False some val show ?thesis by simp
  qed
qed


lemma nextItem_resolved_listing:
  "snd (nextItem w ac dir g ds fs items) = Resolved ac'
     \<Longrightarrow> \<exists>r l. response ac' = Some r \<and> data r = Some (Listing l)
               \<and> parent l = parent_link w dir"
proof (induction items arbitrary: g ds fs)
  case Nil
  then show ?case
    by (auto simp: completed_list_def build_list_def Let_def split: option.splits if_splits)
next
  case (Cons i items)
  then show ?case
    by (auto simp: Let_def emit_def split: sum.splits option.splits if_splits prod.splits)
qed

lemma handleDirectory_listing:
  assumes "snd (handleDirectory w ac dir) = Resolved ac'"
  shows "\<exists>r l. response ac' = Some r \<and> data r = Some (Listing l)
            \<and> parent l = parent_link w dir"
proof -
  from assms obtain hs items where
    "snd (nextItem w (ac\<lparr> headers := Some (hs(HEADER_FILE_TYPE \<mapsto> ''directory'')) \<rparr>)
            dir False [] [] items) = Resolved ac'"
    by (auto simp: handleDirectory_def Let_def emit_def split: option.splits sum.splits)
  from nextItem_resolved_listing [OF this] show ?thesis .
qed

lemma resolve_is_root:
  assumes "take 1 root = ''/''"
    and "path_segments (from_cwd cwd dir) = path_segments root @ ds"
  shows "(posix_resolve cwd dir = posix_resolve cwd root) = (ds = [])"
proof -
  have a: "\<forall>s\<in>set (path_segments root @ ds). proper_segment s"
    using path_segments_proper [of "from_cwd cwd dir"] by (simp only: assms(2))
  have b: "\<forall>s\<in>set (path_segments root). proper_segment s" by (rule path_segments_proper)
  from absolute_path_inject [OF a b]
  have "(absolute_path (path_segments root @ ds) = absolute_path (path_segments root)) = (ds = [])"
    by auto
  with assms show ?thesis
    by (simp add: posix_resolve_def from_cwd_absolute)
qed

text \<open>
  C9, as stated, fails on a POSIX host for a directory name with a backslash in it:
  \<open>completed\<close> rewrites every backslash of the relative path of the parent to a slash.
  The parent of \<open>c\<close> in the workspace above is the directory named \<open>a\<close>, backslash,
  \<open>b\<close>, but the parent link of its listing is \<open>/api/workspace/a/b\<close>, which the handler
  resolves to another directory, \<open>/ws/a/b\<close>.
\<close>

theorem parent_link_backslash_counterexample:
  "path_parent backslash_workspace (''/ws/'' @ backslash_name @ ''/c'') = ''/ws/'' @ backslash_name
 \<and> map_option parent
       (resolved_listing (snd (handleDirectory backslash_workspace
          (new_apiCtx (example_context ''get'' ''/api/workspace/a%5Cb/c'') example_response)
          (''/ws/'' @ backslash_name @ ''/c''))))
     = Some (Some ''/api/workspace/a/b'')
 \<and> request_fullPath backslash_workspace
       (new_apiCtx (example_context ''get'' ''/api/workspace/a/b'') example_response)
     = Inr ''/ws/a/b''
 \<and> ''/ws/a/b'' \<noteq> ''/ws/'' @ backslash_name"
  by (simp add: backslash_workspace_def backslash_name_def resolved_listing_def handler_eval
        example_eval string_eval posix_eval new_apiCtx_def Let_def)

text \<open>
  C9, amended, on a POSIX host (the functions of \<open>path\<close> above, for the working
  directory \<open>cwd\<close>), in a workspace with the absolute root \<open>root\<close> whose
  \<open>toRelativePath\<close> is the one modelled from the specification: for a directory at or
  below the root, \<open>ds\<close> being the names that lead from the root to it, a listing that
  succeeds has no \<open>parent\<close> exactly when the directory resolves to the workspace root;
  and when no name that leads from the root to the parent directory (\<open>ds\<close> without its
  last name) has a backslash in it, the \<open>parent\<close> is the mount point \<open>/api/workspace\<close>
  followed by the path of the parent directory relative to the root, every segment
  encoded. The name of the listed directory itself, and the names in the root, are free.
\<close>

theorem parent_link_unless_root:
  assumes "rootPath w = Some root"
    and "path_parent w = posix_parent cwd"
    and "path_resolve w = posix_resolve cwd"
    and "toRelativePath w = toRelativePath_in root"
    and "take 1 root = ''/''"
    and "path_segments (from_cwd cwd dir) = path_segments root @ ds"
    and "snd (handleDirectory w ac dir) = Resolved ac'"
  shows "\<exists>r l. response ac' = Some r \<and> data r = Some (Listing l)
           \<and> (parent l = None) = (path_resolve w dir = path_resolve w root)
           \<and> ((\<forall>s\<in>set (butlast ds). CHR 0x5C \<notin> set s) \<longrightarrow>
                parent l = (if ds = [] then None
                            else Some (API_WORKSPACE @
                                   join_slash (map (encodeURIComponent w) ([] # butlast ds)))))"
proof -
  from handleDirectory_listing [OF assms(7)] obtain r l where
    rl: "response ac' = Some r" "data r = Some (Listing l)"
        "parent l = parent_link w dir"
    by blast
  note pl = parent_link_posix [OF assms(2,3,4,6)]
  from pl rl(3) have "(parent l = None) = (ds = [])" by simp
  then have k: "(parent l = None) = (path_resolve w dir = path_resolve w root)"
    by (simp only: assms(3) resolve_is_root [OF assms(5,6)])
  from pl rl(3)
  have p: "(\<forall>s\<in>set (butlast ds). CHR 0x5C \<notin> set s) \<longrightarrow>
             parent l = (if ds = [] then None
                         else Some (API_WORKSPACE @
                                join_slash (map (encodeURIComponent w) ([] # butlast ds))))"
    by simp
  show ?thesis
    by (intro exI [of _ r] exI [of _ l] conjI) (rule rl(1) rl(2) k p)+
qed

theorem parent_link_unless_root_witness:
  "(\<exists>ac'. snd (handleDirectory nested_workspace
                 (new_apiCtx (example_context ''get'' ''/api/workspace/x%20y/B'') example_response)
                 ''/ws/x y/B'') = Resolved ac'
        \<and> (\<exists>r l. response ac' = Some r \<and> data r = Some (Listing l)
                \<and> parent l = Some ''/api/workspace/x%20y''))
 \<and> (\<exists>ac'. snd (handleDirectory backslash_workspace
                 (new_apiCtx (example_context ''get'' ''/api/workspace/a%5Cb'') example_response)
                 (''/ws/'' @ backslash_name)) = Resolved ac'
        \<and> (\<exists>r l. response ac' = Some r \<and> data r = Some (Listing l)
                \<and> parent l = Some ''/api/workspace''))
 \<and> (\<exists>ac'. snd (handleDirectory example_workspace
                 (new_apiCtx (example_context ''get'' ''/api/workspace'') example_response)
                 ''/ws'') = Resolved ac'
        \<and> (\<exists>r l. response ac' = Some r \<and> data r = Some (Listing l) \<and> parent l = None))"
proof -
  let ?w = example_workspace
  let ?b = backslash_workspace
  let ?n = nested_workspace
  have rp: "rootPath ?w = Some ''/ws''" and brp: "rootPath ?b = Some ''/ws''"
    and nrp: "rootPath ?n = Some ''/ws''"
    by (simp_all add: backslash_workspace_def nested_workspace_def example_workspace_def)
  have pp: "path_parent ?w = posix_parent ''/''" and pr: "path_resolve ?w = posix_resolve ''/''"
    and rel: "toRelativePath ?w = toRelativePath_in ''/ws''"
    by (simp_all add: example_workspace_def)
  have bpp: "path_parent ?b = posix_parent ''/''" and bpr: "path_resolve ?b = posix_resolve ''/''"
    and brel: "toRelativePath ?b = toRelativePath_in ''/ws''"
    by (simp_all add: backslash_workspace_def example_workspace_def)
  have npp: "path_parent ?n = posix_parent ''/''" and npr: "path_resolve ?n = posix_resolve ''/''"
    and nrel: "toRelativePath ?n = toRelativePath_in ''/ws''"
    by (simp_all add: nested_workspace_def example_workspace_def)
  have ab: "take 1 ''/ws'' = ''/''" by simp
  have s0: "path_segments (from_cwd ''/'' ''/ws/x y/B'') = path_segments ''/ws'' @ [''x y'', ''B'']"
    and s1: "path_segments (from_cwd ''/'' (''/ws/'' @ backslash_name))
              = path_segments ''/ws'' @ [backslash_name]"
    and s2: "path_segments (from_cwd ''/'' ''/ws'') = path_segments ''/ws'' @ []"
    by (simp_all add: posix_eval backslash_name_def)
  obtain ac0 where h0: "snd (handleDirectory ?n
        (new_apiCtx (example_context ''get'' ''/api/workspace/x%20y/B'') example_response)
        ''/ws/x y/B'') = Resolved ac0"
    by (simp add: nested_workspace_def handler_eval example_eval string_eval posix_eval
          new_apiCtx_def Let_def)
  obtain ac1 where h1: "snd (handleDirectory ?b
        (new_apiCtx (example_context ''get'' ''/api/workspace/a%5Cb'') example_response)
        (''/ws/'' @ backslash_name)) = Resolved ac1"
    by (simp add: backslash_workspace_def backslash_name_def handler_eval example_eval
          string_eval posix_eval new_apiCtx_def Let_def)
  obtain ac2 where h2: "snd (handleDirectory ?w
        (new_apiCtx (example_context ''get'' ''/api/workspace'') example_response)
        ''/ws'') = Resolved ac2"
    by (simp add: handler_eval example_eval string_eval posix_eval new_apiCtx_def Let_def)
  have e: "encodeURIComponent ?b [] = []"
    by (simp add: backslash_workspace_def example_workspace_def uri_encode_def)
  have ne: "map (encodeURIComponent ?n) [[], ''x y''] = [[], ''x%20y'']"
    by (simp add: nested_workspace_def example_workspace_def posix_eval string_eval)
  have nb: "\<forall>s\<in>set (butlast [''x y'', ''B'']). CHR 0x5C \<notin> set s" by simp
  from parent_link_unless_root [OF nrp npp npr nrel ab s0 h0] nb ne
  have "\<exists>r l. response ac0 = Some r \<and> data r = Some (Listing l)
                \<and> parent l = Some ''/api/workspace/x%20y''"
    by (auto simp: API_WORKSPACE_def)
  moreover from parent_link_unless_root [OF brp bpp bpr brel ab s1 h1] e
  have "\<exists>r l. response ac1 = Some r \<and> data r = Some (Listing l)
                \<and> parent l = Some ''/api/workspace''"
    by (auto simp: API_WORKSPACE_def)
  moreover from parent_link_unless_root [OF rp pp pr rel ab s2 h2]
  have "\<exists>r l. response ac2 = Some r \<and> data r = Some (Listing l) \<and> parent l = None"
    by auto
  ultimately show ?thesis using h0 h1 h2 by blast
qed

end
